theory Spec2Isabelle
  imports Main
begin

section \<open>JavaScript values used by \<open>pkg/commons-node/process.js\<close>\<close>

text \<open>
  A JavaScript string is a sequence of UTF-16 code units; a code unit is modelled by its
  number. \<open>lit\<close> turns a literal of the theory into such a string.
\<close>

type_synonym code_unit = nat
type_synonym jsstring = "code_unit list"

definition lit :: "string \<Rightarrow> jsstring" where
  "lit s = map of_char s"

definition LF :: code_unit where
  "LF = 10"

definition CR :: code_unit where
  "CR = 13"

text \<open>
  The class \<open>\s\<close> of a regular expression and the characters removed by \<open>trim()\<close>:
  WhiteSpace and LineTerminator of ECMAScript (tab, LF, VT, FF, CR, space, NBSP, the
  Unicode space separators, LS, PS, BOM). Engines of older Unicode versions add U+180E;
  the proofs below use of this set only that LF and CR are in it and that digits and
  signs are not.
\<close>

definition isWhiteSpace :: "code_unit \<Rightarrow> bool" where
  "isWhiteSpace c \<longleftrightarrow> c \<in> set [9, 10, 11, 12, 13, 32, 160, 5760, 8192, 8193, 8194, 8195,
      8196, 8197, 8198, 8199, 8200, 8201, 8202, 8232, 8233, 8239, 8287, 12288, 65279]"

definition isDigit :: "code_unit \<Rightarrow> bool" where
  "isDigit c \<longleftrightarrow> 48 \<le> c \<and> c \<le> 57"

text \<open>
  A JavaScript number as far as this file needs it: \<open>NaN\<close>, an integer in the safe range
  (where a double is exact), or \<open>Inexact\<close>, a double of magnitude above \<open>2^53 - 1\<close> whose
  value is not modelled. \<open>strict_eq\<close> is \<open>===\<close>: \<open>NaN\<close> equals nothing, and a double
  outside the safe range equals no safe integer. Two doubles outside the safe range are
  never compared below.
\<close>

datatype jsnum = NaN | Num int | Inexact

definition strict_eq :: "jsnum \<Rightarrow> jsnum \<Rightarrow> bool" where
  "strict_eq a b = (case (a, b) of (Num x, Num y) \<Rightarrow> x = y | _ \<Rightarrow> False)"

definition toNumber :: "int \<Rightarrow> jsnum" where
  "toNumber n = (if \<bar>n\<bar> \<le> 9007199254740991 then Num n else Inexact)"

definition mathInt :: "jsstring \<Rightarrow> int" where
  "mathInt Z = foldl (\<lambda>acc c. 10 * acc + int (c - 48)) 0 Z"

text \<open>
  \<open>parseInt(input, 10)\<close>: the argument is converted to a string (\<open>undefined\<close>, here
  \<open>None\<close>, to the string "undefined"), leading white space is skipped, a sign is read,
  and the longest prefix of decimal digits is the value; no digit gives \<open>NaN\<close>.
\<close>

definition parseInt :: "jsstring option \<Rightarrow> jsnum" where
  "parseInt input =
     (let inputString = (case input of None \<Rightarrow> lit ''undefined'' | Some s \<Rightarrow> s);
          S = dropWhile isWhiteSpace inputString;
          sign = (if S \<noteq> [] \<and> hd S = 45 then - 1 else 1);
          S' = (if S \<noteq> [] \<and> (hd S = 43 \<or> hd S = 45) then tl S else S);
          Z = takeWhile isDigit S'
      in if Z = [] then NaN else toNumber (sign * mathInt Z))"

text \<open>The decimal rendering of a number inside a template string.\<close>

function decimal :: "nat \<Rightarrow> jsstring" where
  "decimal n = (if n < 10 then [48 + n] else decimal (n div 10) @ [48 + n mod 10])"
  by pat_completeness auto
termination
  by (relation "measure id") auto

declare decimal.simps [simp del]

definition Number_toString :: "int \<Rightarrow> jsstring" where
  "Number_toString i = (if i < 0 then 45 # decimal (nat (- i)) else decimal (nat i))"

fun cons_hd :: "'a \<Rightarrow> 'a list list \<Rightarrow> 'a list list" where
  "cons_hd c [] = [[c]]"
| "cons_hd c (l # ls) = (c # l) # ls"

text \<open>\<open>s.split(/\n|\r\n/)\<close>: the pieces of \<open>s\<close> between the separators LF and CR LF.\<close>

fun split_newline :: "jsstring \<Rightarrow> jsstring list" where
  "split_newline [] = [[]]"
| "split_newline [c] = (if c = LF then [[], []] else [[c]])"
| "split_newline (c # d # s) =
     (if c = LF then [] # split_newline (d # s)
      else if c = CR \<and> d = LF then [] # split_newline s
      else cons_hd c (split_newline (d # s)))"

text \<open>\<open>s.split(/\s+/)\<close>: the pieces of \<open>s\<close> between the maximal runs of white space.\<close>

function split_whitespace :: "jsstring \<Rightarrow> jsstring list" where
  "split_whitespace [] = [[]]"
| "split_whitespace (c # s) =
     (if isWhiteSpace c then [] # split_whitespace (dropWhile isWhiteSpace s)
      else cons_hd c (split_whitespace s))"
  by pat_completeness auto
termination
  by (relation "measure length") (auto simp: length_dropWhile_le less_Suc_eq_le)

definition trim :: "jsstring \<Rightarrow> jsstring" where
  "trim s = rev (dropWhile isWhiteSpace (rev (dropWhile isWhiteSpace s)))"

fun join :: "jsstring \<Rightarrow> jsstring list \<Rightarrow> jsstring" where
  "join sep [] = []"
| "join sep [x] = x"
| "join sep (x # y # ys) = x @ sep @ join sep (y # ys)"

text \<open>Reading an array element: \<open>undefined\<close> (\<open>None\<close>) beyond the end.\<close>

definition element :: "'a list \<Rightarrow> nat \<Rightarrow> 'a option" where
  "element xs i = (if i < length xs then Some (xs ! i) else None)"

section \<open>The process table\<close>

record ProcessInfo =
  command :: jsstring
  parentPid :: jsnum
  pid :: jsnum

text \<open>The arrow function that \<open>parsePsOutput\<close> maps over the lines.\<close>

definition parsePsOutput_line :: "jsstring \<Rightarrow> ProcessInfo" where
  "parsePsOutput_line line =
     (let columns = split_whitespace (trim line);
          parentPid = element columns 0;
          pid = element columns 1;
          command = join (lit '' '') (drop 2 columns)
      in \<lparr>command = command, parentPid = parseInt parentPid, pid = parseInt pid\<rparr>)"

definition parsePsOutput :: "jsstring \<Rightarrow> ProcessInfo list" where
  "parsePsOutput psOutput =
     (let lines = drop 1 (split_newline psOutput)
      in map parsePsOutput_line lines)"

section \<open>Effects and the environment\<close>

text \<open>
  The error object that \<open>child_process.exec\<close> and \<open>execFile\<close> hand to their callback:
  its \<open>code\<close> (an exit code, a system code such as ENOENT, or absent), \<open>errno\<close> and
  \<open>message\<close>.
\<close>

datatype code_value = CodeNumber int | CodeString jsstring | CodeUndefined

record ExecError =
  err_code :: code_value
  err_errno :: "jsstring option"
  err_message :: jsstring

record AsyncExecuteReturn =
  errorMessage :: "jsstring option"
  errorCode :: "jsstring option"
  exitCode :: "int option"
  stderr :: jsstring
  stdout :: jsstring

text \<open>
  What the code throws or rejects with: an error raised by the runtime or the operating
  system, the \<open>Error\<close> that \<open>checkOutput\<close> builds from a command and its result, and the
  \<open>AssertionError\<close> of \<open>invariant\<close>. A promise rejected with \<open>null\<close> has the reason \<open>None\<close>.
\<close>

datatype js_error =
    NativeError ExecError
  | CheckOutputError jsstring AsyncExecuteReturn
  | AssertionError jsstring

type_synonym reason = "js_error option"

text \<open>
  Every call that leaves the module is recorded, in order: \<open>console.log\<close>,
  \<open>console.error\<close>, \<open>childProcess.kill()\<close> (SIGTERM to the handle's process),
  \<open>process.kill(pid, signal)\<close>, \<open>child_process.exec(command)\<close> and
  \<open>child_process.execFile(command, args)\<close>.
\<close>

datatype effect =
    ConsoleLog jsstring
  | ConsoleError jsstring reason
  | ChildProcessKill int
  | ProcessKill jsnum jsstring
  | Exec jsstring
  | ExecFile jsstring "jsstring list"

type_synonym trace = "effect list"

datatype kill_outcome = KillThrows js_error | KillReturns bool

text \<open>
  The environment answers each call, given the calls made before it:
  \<open>process.platform\<close>; whether \<open>childProcess.kill()\<close> throws or returns (true when the
  signal was delivered); the error \<open>process.kill\<close> throws, if any; the error argument of
  the callback of \<open>exec\<close>; and the error, stdout and stderr arguments of the callback of
  \<open>execFile\<close>.
\<close>

record env =
  platform :: jsstring
  childKill :: "trace \<Rightarrow> int \<Rightarrow> kill_outcome"
  processKill :: "trace \<Rightarrow> jsnum \<Rightarrow> jsstring \<Rightarrow> js_error option"
  exec_callback :: "trace \<Rightarrow> jsstring \<Rightarrow> ExecError option"
  execFile_callback :: "trace \<Rightarrow> jsstring \<Rightarrow> jsstring list \<Rightarrow> ExecError option \<times> jsstring \<times> jsstring"

section \<open>Process handles and their notifications\<close>

type_synonym time = nat

text \<open>A readable stream: the chunks its \<open>data\<close> events deliver, and its \<open>end\<close> event.\<close>

record Readable =
  data_events :: "(time \<times> jsstring) list"
  end_event :: "time option"

text \<open>
  A \<open>child_process$ChildProcess\<close>: its fields, and the notifications it dispatches (times
  in milliseconds after the subscription). An \<open>exit\<close> event carries \<open>exitCode\<close> and
  \<open>signal\<close>, each possibly \<open>null\<close>.
\<close>

record ChildProcess =
  proc_pid :: int
  proc_exitCode :: "int option"
  killed :: bool
  wasKilled :: bool
  proc_stdout :: Readable
  proc_stderr :: Readable
  error_events :: "(time \<times> js_error) list"
  exit_events :: "(time \<times> int option \<times> jsstring option) list"

text \<open>\<open>ProcessMessage\<close>; \<open>ProcessExitMessage\<close> is its variant of kind \<open>exit\<close>.\<close>

datatype ProcessMessage =
    Stdout jsstring
  | Stderr jsstring
  | Error js_error
  | Exit "int option" "jsstring option"

fun kind :: "ProcessMessage \<Rightarrow> jsstring" where
  "kind (Stdout d) = lit ''stdout''"
| "kind (Stderr d) = lit ''stderr''"
| "kind (Error e) = lit ''error''"
| "kind (Exit c s) = lit ''exit''"

section \<open>Running commands\<close>

text \<open>
  \<open>asyncExecute(command, args)\<close> with the default options: \<open>execFile\<close> is called, and the
  promise resolves with a result built from the arguments of its callback.
  \<open>Number.isInteger(err.code)\<close> holds for \<open>CodeNumber\<close>; \<open>err.errno || 'EUNKNOWN'\<close> falls
  back for an absent or empty \<open>errno\<close>.
\<close>

definition asyncExecute :: "env \<Rightarrow> jsstring \<Rightarrow> jsstring list \<Rightarrow> trace \<Rightarrow> AsyncExecuteReturn \<times> trace" where
  "asyncExecute e cmd args tr =
     (case execFile_callback e tr cmd args of (err, stdoutBuf, stderrBuf) \<Rightarrow>
        ((case err of
            None \<Rightarrow> \<lparr>errorMessage = None, errorCode = None, exitCode = Some 0,
                      stderr = stderrBuf, stdout = stdoutBuf\<rparr>
          | Some x \<Rightarrow>
              (case err_code x of
                 CodeNumber n \<Rightarrow> \<lparr>errorMessage = None, errorCode = None, exitCode = Some n,
                                   stderr = stderrBuf, stdout = stdoutBuf\<rparr>
               | _ \<Rightarrow> \<lparr>errorMessage = Some (err_message x),
                         errorCode = (case err_errno x of
                                        None \<Rightarrow> Some (lit ''EUNKNOWN'')
                                      | Some n \<Rightarrow> if n = [] then Some (lit ''EUNKNOWN'') else Some n),
                         exitCode = None, stderr = stderrBuf, stdout = stdoutBuf\<rparr>)),
         tr @ [ExecFile cmd args]))"

text \<open>\<open>checkOutput\<close>: the promise is rejected unless the exit code is 0.\<close>

definition checkOutput :: "env \<Rightarrow> jsstring \<Rightarrow> jsstring list \<Rightarrow> trace \<Rightarrow> (js_error + AsyncExecuteReturn) \<times> trace" where
  "checkOutput e cmd args tr =
     (case asyncExecute e cmd args tr of (result, tr') \<Rightarrow>
        if exitCode result \<noteq> Some 0 then (Inl (CheckOutputError cmd result), tr')
        else (Inr result, tr'))"

text \<open>\<open>/^win/.test(process.platform)\<close>\<close>

definition isWindows :: "env \<Rightarrow> bool" where
  "isWindows e \<longleftrightarrow> take 3 (platform e) = lit ''win''"

definition psTree :: "env \<Rightarrow> trace \<Rightarrow> (js_error + ProcessInfo list) \<times> trace" where
  "psTree e tr =
     (case (if isWindows e
            then checkOutput e (lit ''wmic.exe'')
                   [lit ''PROCESS'', lit ''GET'', lit ''ParentProcessId,ProcessId,Name''] tr
            else checkOutput e (lit ''ps'') [lit ''-A'', lit ''-o'', lit ''ppid,pid,comm''] tr)
      of (Inl err, tr') \<Rightarrow> (Inl err, tr')
       | (Inr result, tr') \<Rightarrow> (Inr (parsePsOutput (stdout result)), tr'))"

definition getChildrenOfProcess :: "env \<Rightarrow> jsnum \<Rightarrow> trace \<Rightarrow> (js_error + ProcessInfo list) \<times> trace" where
  "getChildrenOfProcess e processId tr =
     (case psTree e tr of
        (Inl err, tr') \<Rightarrow> (Inl err, tr')
      | (Inr processes, tr') \<Rightarrow>
          (Inr (filter (\<lambda>processInfo. strict_eq (parentPid processInfo) processId) processes), tr'))"

section \<open>Killing a process\<close>

text \<open>
  \<open>childProcess.kill()\<close> of Node: sends SIGTERM; it may throw, and it sets \<open>killed\<close> when
  the signal was delivered.
\<close>

definition ChildProcess_kill :: "env \<Rightarrow> ChildProcess \<Rightarrow> trace \<Rightarrow> (reason + unit) \<times> ChildProcess \<times> trace" where
  "ChildProcess_kill e childProcess tr =
     (case childKill e tr (proc_pid childProcess) of
        KillThrows err \<Rightarrow> (Inl (Some err), childProcess, tr @ [ChildProcessKill (proc_pid childProcess)])
      | KillReturns sent \<Rightarrow>
          (Inr (), childProcess\<lparr>killed := killed childProcess \<or> sent\<rparr>,
           tr @ [ChildProcessKill (proc_pid childProcess)]))"

text \<open>
  \<open>killWindowsProcessTree\<close>: the promise of the \<open>taskkill\<close> command, \<open>Inl\<close> when it is
  rejected. The callback rejects with \<open>error\<close> when \<open>error == null\<close> and resolves otherwise.
\<close>

definition killWindowsProcessTree :: "env \<Rightarrow> int \<Rightarrow> trace \<Rightarrow> (reason + unit) \<times> trace" where
  "killWindowsProcessTree e p tr =
     (let cmd = lit ''taskkill /pid '' @ Number_toString p @ lit '' /T /F'';
          error = exec_callback e tr cmd
      in if error = None then (Inl None, tr @ [Exec cmd])
         else (Inr (), tr @ [Exec cmd]))"

text \<open>The loop of \<open>killUnixProcessTree\<close>; a throwing \<open>process.kill\<close> leaves it.\<close>

fun kill_children :: "env \<Rightarrow> ProcessInfo list \<Rightarrow> trace \<Rightarrow> (reason + unit) \<times> trace" where
  "kill_children e [] tr = (Inr (), tr)"
| "kill_children e (child # children) tr =
     (case processKill e tr (pid child) (lit ''SIGTERM'') of
        Some err \<Rightarrow> (Inl (Some err), tr @ [ProcessKill (pid child) (lit ''SIGTERM'')])
      | None \<Rightarrow> kill_children e children (tr @ [ProcessKill (pid child) (lit ''SIGTERM'')]))"

definition killUnixProcessTree :: "env \<Rightarrow> ChildProcess \<Rightarrow> trace \<Rightarrow> (reason + unit) \<times> ChildProcess \<times> trace" where
  "killUnixProcessTree e childProcess tr =
     (case getChildrenOfProcess e (Num (proc_pid childProcess)) tr of
        (Inl err, tr1) \<Rightarrow> (Inl (Some err), childProcess, tr1)
      | (Inr children, tr1) \<Rightarrow>
          (case kill_children e children tr1 of
             (Inl r, tr2) \<Rightarrow> (Inl r, childProcess, tr2)
           | (Inr u, tr2) \<Rightarrow> ChildProcess_kill e childProcess tr2))"

text \<open>
  \<open>_killProcess\<close>: the outcome of the promise (\<open>Inl\<close> when rejected), the handle and the
  calls made. An exception inside the \<open>async\<close> function rejects the promise. The awaited
  steps run to their end here; other callbacks that the event loop could run in between
  are not modelled.
\<close>

definition killProcess_async :: "env \<Rightarrow> ChildProcess \<Rightarrow> bool \<Rightarrow> trace \<Rightarrow> (reason + unit) \<times> ChildProcess \<times> trace" where
  "killProcess_async e childProcess killTree tr =
     (let childProcess = childProcess\<lparr>wasKilled := True\<rparr>
      in if \<not> killTree then ChildProcess_kill e childProcess tr
         else if isWindows e then
           (case killWindowsProcessTree e (proc_pid childProcess) tr of
              (r, tr') \<Rightarrow> (r, childProcess, tr'))
         else killUnixProcessTree e childProcess tr)"

text \<open>
  \<open>killProcess\<close>: logs, starts \<open>_killProcess\<close>, and handles both outcomes of its promise;
  it returns nothing, so the result is the handle and the calls made.
\<close>

definition killProcess :: "env \<Rightarrow> ChildProcess \<Rightarrow> bool \<Rightarrow> trace \<Rightarrow> ChildProcess \<times> trace" where
  "killProcess e childProcess killTree tr =
     (case killProcess_async e childProcess killTree
             (tr @ [ConsoleLog (lit ''Ending process stream. Killing process ''
                                 @ Number_toString (proc_pid childProcess))])
      of (Inr u, childProcess', tr') \<Rightarrow> (childProcess', tr')
       | (Inl error, childProcess', tr') \<Rightarrow>
           (childProcess',
            tr' @ [ConsoleError (lit ''Killing process '' @ Number_toString (proc_pid childProcess)
                                  @ lit '' failed'') error]))"

section \<open>The process stream: subscription and teardown\<close>

text \<open>
  The state of one subscription of \<open>_createProcessStream\<close>: the handle and the local
  \<open>finished\<close>.
\<close>

record process_stream =
  stream_process :: ChildProcess
  finished :: bool

text \<open>
  The callback of \<open>Observable.defer\<close>, up to the \<open>invariant\<close>: the process is created,
  and the subscription fails with the \<open>AssertionError\<close> unless
  \<open>process.exitCode == null && !process.killed\<close>.
\<close>

definition createProcessStream_subscribe :: "(unit \<Rightarrow> ChildProcess) \<Rightarrow> js_error + process_stream" where
  "createProcessStream_subscribe createProcess =
     (let process = createProcess ();
          finished = False
      in if \<not> (proc_exitCode process = None \<and> \<not> killed process)
         then Inl (AssertionError (lit ''Process already exited. (This indicates a race condition in Nuclide.)''))
         else Inr \<lparr>stream_process = process, finished = finished\<rparr>)"

text \<open>The \<open>do\<close> observer: completion and error set \<open>finished\<close>.\<close>

definition createProcessStream_do :: "process_stream \<Rightarrow> process_stream" where
  "createProcessStream_do st = st\<lparr>finished := True\<rparr>"

text \<open>
  The \<open>finally\<close> callback, run when the stream completes, fails or is unsubscribed.
\<close>

definition createProcessStream_finally :: "env \<Rightarrow> bool \<Rightarrow> process_stream \<Rightarrow> trace \<Rightarrow> process_stream \<times> trace" where
  "createProcessStream_finally e killTreeOnComplete st tr =
     (if \<not> wasKilled (stream_process st) \<and> \<not> finished st
      then (case killProcess e (stream_process st) killTreeOnComplete tr of
              (process', tr') \<Rightarrow> (st\<lparr>stream_process := process'\<rparr>, tr'))
      else (st, tr))"

section \<open>Observables\<close>

text \<open>
  What one subscription of an observable delivers when it does not fail: the values
  with the times of their delivery, in order, and the time of its completion, if it
  completes. The subscription is at time 0. The operators below are those of RxJS that
  the file uses. Where two notifications bear the same time the operators fix an order
  (a source is served before its \<open>takeUntil\<close> notifier, the left argument of \<open>merge\<close>
  before the right one). The one failure of the pipelines of this file is the
  \<open>AssertionError\<close> of \<open>_createProcessStream\<close>, raised at the subscription: a stream
  that fails so is \<open>Inl\<close> of the error and delivers nothing, and every operator passes
  the failure of its source on.
\<close>

record 'a run =
  emissions :: "(time \<times> 'a) list"
  completion :: "time option"

definition obs_of :: "'a \<Rightarrow> 'a run" where
  "obs_of x = \<lparr>emissions = [(0, x)], completion = Some 0\<rparr>"

definition never :: "'a run" where
  "never = \<lparr>emissions = [], completion = None\<rparr>"

text \<open>\<open>Observable.fromEvent\<close>: the events of an emitter; it never completes.\<close>

definition fromEvent :: "(time \<times> 'a) list \<Rightarrow> 'a run" where
  "fromEvent evs = \<lparr>emissions = evs, completion = None\<rparr>"

definition obs_map :: "('a \<Rightarrow> 'b) \<Rightarrow> 'a run \<Rightarrow> 'b run" where
  "obs_map f r = \<lparr>emissions = map (\<lambda>(t, x). (t, f x)) (emissions r), completion = completion r\<rparr>"

definition obs_filter :: "('a \<Rightarrow> bool) \<Rightarrow> 'a run \<Rightarrow> 'a run" where
  "obs_filter p r = \<lparr>emissions = filter (\<lambda>(t, x). p x) (emissions r), completion = completion r\<rparr>"

text \<open>\<open>take(1)\<close>: the first value, and completion with it.\<close>

definition take1 :: "'a run \<Rightarrow> 'a run" where
  "take1 r = (case emissions r of
                [] \<Rightarrow> r
              | (t, x) # rest \<Rightarrow> \<lparr>emissions = [(t, x)], completion = Some t\<rparr>)"

definition delay :: "nat \<Rightarrow> 'a run \<Rightarrow> 'a run" where
  "delay d r = \<lparr>emissions = map (\<lambda>(t, x). (t + d, x)) (emissions r),
                completion = map_option (\<lambda>c. c + d) (completion r)\<rparr>"

text \<open>\<open>source.takeUntil(notifier)\<close>: the source up to the first value of the notifier.\<close>

definition takeUntil :: "'a run \<Rightarrow> 'b run \<Rightarrow> 'a run" where
  "takeUntil source notifier =
     (case emissions notifier of
        [] \<Rightarrow> source
      | (tn, x) # rest \<Rightarrow>
          \<lparr>emissions = takeWhile (\<lambda>(t, y). t \<le> tn) (emissions source),
           completion = (case completion source of
                           None \<Rightarrow> Some tn
                         | Some c \<Rightarrow> Some (min c tn))\<rparr>)"

fun merge_by_time :: "(time \<times> 'a) list \<Rightarrow> (time \<times> 'a) list \<Rightarrow> (time \<times> 'a) list" where
  "merge_by_time [] ys = ys"
| "merge_by_time xs [] = xs"
| "merge_by_time (x # xs) (y # ys) =
     (if fst x \<le> fst y then x # merge_by_time xs (y # ys) else y # merge_by_time (x # xs) ys)"

text \<open>\<open>merge\<close>: both inputs interleaved by time; complete when both are.\<close>

definition merge :: "'a run \<Rightarrow> 'a run \<Rightarrow> 'a run" where
  "merge a b = \<lparr>emissions = merge_by_time (emissions a) (emissions b),
                completion = (case (completion a, completion b) of
                                (Some x, Some y) \<Rightarrow> Some (max x y)
                              | _ \<Rightarrow> None)\<rparr>"

text \<open>
  \<open>publishReplay()\<close> with \<open>connect()\<close> at time 0: a subscriber that arrives at time \<open>s\<close>
  is given the buffered notifications at once and the later ones as they come.
\<close>

definition publishReplay :: "'a run \<Rightarrow> time \<Rightarrow> 'a run" where
  "publishReplay r s = \<lparr>emissions = map (\<lambda>(t, x). (max s t, x)) (emissions r),
                        completion = map_option (max s) (completion r)\<rparr>"

text \<open>\<open>a.concat(b)\<close>: \<open>b\<close> is subscribed when \<open>a\<close> completes.\<close>

definition obs_concat :: "'a run \<Rightarrow> (time \<Rightarrow> 'a run) \<Rightarrow> 'a run" where
  "obs_concat a b =
     (case completion a of
        None \<Rightarrow> a
      | Some c \<Rightarrow> \<lparr>emissions = emissions a @ emissions (b c), completion = completion (b c)\<rparr>)"

text \<open>
  \<open>flatMap\<close>: the inner observables of all values, merged; complete when the source and
  all of them are.
\<close>

definition flatMap :: "('a \<Rightarrow> 'b run) \<Rightarrow> 'a run \<Rightarrow> 'b run" where
  "flatMap f r = foldr (\<lambda>(t, x) acc. merge (f x) acc) (emissions r)
                   \<lparr>emissions = [], completion = completion r\<rparr>"

text \<open>
  Modelled from the spec: \<open>observeStream\<close> of \<open>./stream\<close> is not in the sources. It adapts
  a raw chunk source: the chunks of the stream as they arrive, ending when the source
  closes.
\<close>

definition observeStream :: "Readable \<Rightarrow> jsstring run" where
  "observeStream stream =
     \<lparr>emissions = (case end_event stream of
                      None \<Rightarrow> data_events stream
                    | Some e \<Rightarrow> takeWhile (\<lambda>(t, d). t \<le> e) (data_events stream)),
      completion = end_event stream\<rparr>"

text \<open>
  Modelled from the spec: \<open>splitStream\<close> of \<open>./observable\<close> is not in the sources. It
  turns chunks into complete lines, buffering any trailing partial line across chunks
  and flushing the final partial line (if non-empty) when the source ends. A line is
  delivered with the chunk that completes it, and keeps its line feed.
\<close>

fun split_chunk :: "jsstring \<Rightarrow> jsstring \<Rightarrow> jsstring list \<times> jsstring" where
  "split_chunk current [] = ([], current)"
| "split_chunk current (c # cs) =
     (if c = LF
      then (case split_chunk [] cs of (ls, rest) \<Rightarrow> ((current @ [c]) # ls, rest))
      else split_chunk (current @ [c]) cs)"

fun splitStream_from :: "jsstring \<Rightarrow> (time \<times> jsstring) list \<Rightarrow> time option \<Rightarrow> (time \<times> jsstring) list" where
  "splitStream_from current [] None = []"
| "splitStream_from current [] (Some e) = (if current \<noteq> [] then [(e, current)] else [])"
| "splitStream_from current ((t, chunk) # rest) e =
     (case split_chunk current chunk of
        (ls, current') \<Rightarrow> map (Pair t) ls @ splitStream_from current' rest e)"

definition splitStream :: "jsstring run \<Rightarrow> jsstring run" where
  "splitStream input = \<lparr>emissions = splitStream_from [] (emissions input) (completion input),
                        completion = completion input\<rparr>"

text \<open>
  Modelled from the spec: \<open>takeWhileInclusive\<close> of \<open>./observable\<close> is not in the sources.
  Takes-while-inclusive: at the first value that fails the predicate, that value is
  delivered, then the sequence ends.
\<close>

fun takeWhileInclusive_list :: "('a \<Rightarrow> bool) \<Rightarrow> (time \<times> 'a) list \<Rightarrow> (time \<times> 'a) list" where
  "takeWhileInclusive_list p [] = []"
| "takeWhileInclusive_list p (x # xs) =
     (if p (snd x) then x # takeWhileInclusive_list p xs else [x])"

definition takeWhileInclusive :: "'a run \<Rightarrow> ('a \<Rightarrow> bool) \<Rightarrow> 'a run" where
  "takeWhileInclusive source p =
     \<lparr>emissions = takeWhileInclusive_list p (emissions source),
      completion = (case find (\<lambda>(t, x). \<not> p x) (emissions source) of
                      None \<Rightarrow> completion source
                    | Some (t, x) \<Rightarrow> Some t)\<rparr>"

section \<open>Observing a process\<close>

definition observeProcessExitMessage :: "ChildProcess \<Rightarrow> ProcessMessage run" where
  "observeProcessExitMessage process =
     take1 (obs_filter (\<lambda>message. (case message of Exit c s \<Rightarrow> s | _ \<Rightarrow> None) \<noteq> Some (lit ''SIGUSR1''))
              (obs_map (\<lambda>(exitCode, signal). Exit exitCode signal)
                 (fromEvent (exit_events process))))"

text \<open>The values that a stream delivers: none when it fails at the subscription.\<close>

definition delivered :: "js_error + 'a run \<Rightarrow> (time \<times> 'a) list" where
  "delivered r = (case r of Inl err \<Rightarrow> [] | Inr out \<Rightarrow> emissions out)"

text \<open>
  What \<open>_createProcessStream(createProcess, false, killTreeOnComplete)\<close> delivers. The
  callback of \<open>Observable.defer\<close> creates the process and checks the \<open>invariant\<close>; when
  that throws, the stream fails with the \<open>AssertionError\<close>. Otherwise it delivers the
  handle, and completes at the first error or exit.
\<close>

definition createProcessStream_run :: "(unit \<Rightarrow> ChildProcess) \<Rightarrow> js_error + ChildProcess run" where
  "createProcessStream_run createProcess =
     (case createProcessStream_subscribe createProcess of
        Inl err \<Rightarrow> Inl err
      | Inr st \<Rightarrow>
          (let process = stream_process st;
               errors = fromEvent (error_events process);
               exit = observeProcessExitMessage process
           in Inr (takeUntil (takeUntil (merge (obs_of process) never) errors) exit)))"

definition observeProcessExit :: "(unit \<Rightarrow> ChildProcess) \<Rightarrow> js_error + ProcessMessage run" where
  "observeProcessExit createProcess =
     (case createProcessStream_run createProcess of
        Inl err \<Rightarrow> Inl err
      | Inr r \<Rightarrow> Inr (flatMap observeProcessExitMessage r))"

text \<open>The constants \<open>error\<close>, \<open>close\<close>, \<open>stdout\<close> and \<open>stderr\<close> of \<open>getOutputStream\<close>.\<close>

definition getOutputStream_error :: "ChildProcess \<Rightarrow> ProcessMessage run" where
  "getOutputStream_error process = obs_map (\<lambda>errorObj. Error errorObj) (fromEvent (error_events process))"

definition getOutputStream_close :: "(time \<Rightarrow> ProcessMessage run) \<Rightarrow> ProcessMessage run" where
  "getOutputStream_close exit = delay 100 (exit 0)"

definition getOutputStream_stdout :: "ChildProcess \<Rightarrow> ProcessMessage run \<Rightarrow> ProcessMessage run" where
  "getOutputStream_stdout process close =
     obs_map (\<lambda>data. Stdout data)
       (splitStream (takeUntil (observeStream (proc_stdout process)) close))"

definition getOutputStream_stderr :: "ChildProcess \<Rightarrow> ProcessMessage run \<Rightarrow> ProcessMessage run" where
  "getOutputStream_stderr process close =
     obs_map (\<lambda>data. Stderr data)
       (splitStream (takeUntil (observeStream (proc_stderr process)) close))"

text \<open>
  \<open>getOutputStream\<close>. When the stream of \<open>observeProcessExit\<close> fails at the subscription,
  the failure is replayed to \<open>close\<close> and \<open>exit\<close>, and through them it fails \<open>stdout\<close>,
  \<open>stderr\<close> and the merged sequence.
\<close>

definition getOutputStream :: "ChildProcess \<Rightarrow> js_error + ProcessMessage run" where
  "getOutputStream process =
     (case observeProcessExit (\<lambda>u. process) of
        Inl err \<Rightarrow> Inl err
      | Inr exit_run \<Rightarrow>
          (let exit = publishReplay exit_run;
               error = getOutputStream_error process;
               close = getOutputStream_close exit;
               stdout = getOutputStream_stdout process close;
               stderr = getOutputStream_stderr process close
           in Inr (takeWhileInclusive
                     (merge (obs_concat (merge stdout stderr) exit) error)
                     (\<lambda>event. kind event \<noteq> lit ''error'' \<and> kind event \<noteq> lit ''exit''))))"

section \<open>The layout of a process listing\<close>








section \<open>Sample environments and handles\<close>

text \<open>
  An environment on the given platform in which no signal call throws, \<open>exec\<close> reports
  the given error and \<open>execFile\<close> succeeds with the given text on stdout.
\<close>

definition quiet_env :: "jsstring \<Rightarrow> jsstring \<Rightarrow> ExecError option \<Rightarrow> env" where
  "quiet_env plat out err =
     \<lparr>platform = plat,
      childKill = (\<lambda>tr p. KillReturns True),
      processKill = (\<lambda>tr p s. None),
      exec_callback = (\<lambda>tr c. err),
      execFile_callback = (\<lambda>tr c args. (None, out, []))\<rparr>"

text \<open>A handle just spawned with the given pid, with no notification yet.\<close>

definition fresh_process :: "int \<Rightarrow> ChildProcess" where
  "fresh_process p =
     \<lparr>proc_pid = p, proc_exitCode = None, killed = False, wasKilled = False,
      proc_stdout = \<lparr>data_events = [], end_event = None\<rparr>,
      proc_stderr = \<lparr>data_events = [], end_event = None\<rparr>,
      error_events = [], exit_events = []\<rparr>"

text \<open>The terminal variants of \<open>ProcessMessage\<close>: those of kind \<open>error\<close> and \<open>exit\<close>.\<close>

definition terminal :: "ProcessMessage \<Rightarrow> bool" where
  "terminal event \<longleftrightarrow> kind event = lit ''error'' \<or> kind event = lit ''exit''"

text \<open>An \<open>exit\<close> notification that \<open>observeProcessExitMessage\<close> lets through.\<close>

definition real_exit :: "time \<times> int option \<times> jsstring option \<Rightarrow> bool" where
  "real_exit ev \<longleftrightarrow> snd (snd ev) \<noteq> Some (lit ''SIGUSR1'')"

section \<open>Output within the grace period\<close>

text \<open>
  The time at which a stream that is cut at time \<open>T\<close> completes: its own end, or \<open>T\<close>,
  whichever comes first.
\<close>

definition close_time :: "Readable \<Rightarrow> time \<Rightarrow> time" where
  "close_time stream T = (case end_event stream of None \<Rightarrow> T | Some c \<Rightarrow> min c T)"

text \<open>
  The lines of a stream that is cut at time \<open>T\<close>: the lines split from the chunks that
  arrive up to \<open>T\<close>, the partial last line flushed when the stream completes.
\<close>

definition gated_lines :: "Readable \<Rightarrow> time \<Rightarrow> (time \<times> jsstring) list" where
  "gated_lines stream T =
     splitStream_from [] (takeWhile (\<lambda>(t, d). t \<le> T) (emissions (observeStream stream)))
       (Some (close_time stream T))"

text \<open>The chunks of a stream that arrive up to time \<open>T\<close>, before its end.\<close>

definition chunks_until :: "Readable \<Rightarrow> time \<Rightarrow> (time \<times> jsstring) list" where
  "chunks_until stream T =
     filter (\<lambda>(t, d). t \<le> T \<and> (case end_event stream of None \<Rightarrow> True | Some e \<Rightarrow> t \<le> e))
       (data_events stream)"

text \<open>The text that an event carries on stdout, and on stderr.\<close>

fun stdout_data :: "ProcessMessage \<Rightarrow> jsstring" where
  "stdout_data (Stdout d) = d"
| "stdout_data event = []"

fun stderr_data :: "ProcessMessage \<Rightarrow> jsstring" where
  "stderr_data (Stderr d) = d"
| "stderr_data event = []"

section \<open>Environments in which a signal or the listing fails\<close>

text \<open>
  The error of \<open>process.kill\<close> for a process that is gone, and an environment like
  \<open>quiet_env\<close> in which \<open>process.kill\<close> throws it for one pid.
\<close>

definition ESRCH :: js_error where
  "ESRCH = NativeError \<lparr>err_code = CodeString (lit ''ESRCH''), err_errno = Some (lit ''ESRCH''),
                         err_message = lit ''kill ESRCH''\<rparr>"



section \<open>The process table parser\<close>

lemma split_newline_nonempty: "split_newline s \<noteq> []"
  by (induction s rule: split_newline.induct) (auto split: list.splits simp: neq_Nil_conv)

lemma length_cons_hd: "ls \<noteq> [] \<Longrightarrow> length (cons_hd c ls) = length ls"
  by (cases ls) auto

lemma length_split_newline: "length (split_newline s) = Suc (count_list s LF)"
  by (induction s rule: split_newline.induct)
     (auto simp: length_cons_hd split_newline_nonempty CR_def LF_def)

lemma last_cons_hd: "length ls \<ge> 2 \<Longrightarrow> last (cons_hd c ls) = last ls"
  by (cases ls) auto

lemma last_split_newline_LF: "last (split_newline (s @ [LF])) = []"
proof (induction s rule: split_newline.induct)
  case 1
  then show ?case by simp
next
  case (2 c)
  then show ?case by simp
next
  case (3 c d s)
  have len: "length (split_newline (d # s @ [LF])) \<ge> 2"
    by (simp add: length_split_newline)
  have ne: "split_newline (d # s @ [LF]) \<noteq> []" "split_newline (s @ [LF]) \<noteq> []"
    by (rule split_newline_nonempty)+
  from 3 len ne show ?case
    by (auto simp: last_cons_hd)
qed

lemma dropWhile_all: "list_all P xs \<Longrightarrow> dropWhile P xs = []"
  by (induction xs) auto

lemma parseInt_undefined: "parseInt None = NaN"
  by (simp add: parseInt_def lit_def isWhiteSpace_def isDigit_def)

lemma parseInt_empty: "parseInt (Some []) = NaN"
  by (simp add: parseInt_def)

lemma blank_line:
  assumes "list_all isWhiteSpace l"
  shows "parsePsOutput_line l = \<lparr>command = [], parentPid = NaN, pid = NaN\<rparr>"
proof -
  have "trim l = []" using assms by (simp add: trim_def dropWhile_all)
  then show ?thesis
    by (simp add: parsePsOutput_line_def element_def parseInt_undefined parseInt_empty)
qed




















lemmas parse_eval = parsePsOutput_def parsePsOutput_line_def lit_def LF_def CR_def trim_def
  isWhiteSpace_def element_def parseInt_def isDigit_def mathInt_def toNumber_def








text \<open>
  Claim C10. \<open>parsePsOutput\<close> gives one record for each line after the header: their
  number is the number of lines minus one, and the number of lines is the number of line
  feeds plus one. A line that is empty or all white space gives the record with
  \<open>parentPid\<close> and \<open>pid\<close> \<open>NaN\<close> and the empty command; so does the empty last line of
  an input that ends with a line feed.
\<close>

theorem parsePsOutput_one_record_per_line:
  "length (parsePsOutput s) = length (split_newline s) - 1
   \<and> length (split_newline s) = Suc (count_list s LF)
   \<and> (\<forall>i<length (parsePsOutput s).
          list_all isWhiteSpace (split_newline s ! Suc i) \<longrightarrow>
          parsePsOutput s ! i = \<lparr>command = [], parentPid = NaN, pid = NaN\<rparr>)
   \<and> parsePsOutput (s @ [LF]) \<noteq> []
   \<and> last (parsePsOutput (s @ [LF])) = \<lparr>command = [], parentPid = NaN, pid = NaN\<rparr>"
proof -
  have len: "length (parsePsOutput s) = length (split_newline s) - 1"
    by (simp add: parsePsOutput_def)
  have blank_rows: "\<forall>i<length (parsePsOutput s).
          list_all isWhiteSpace (split_newline s ! Suc i) \<longrightarrow>
          parsePsOutput s ! i = \<lparr>command = [], parentPid = NaN, pid = NaN\<rparr>"
    by (auto simp: parsePsOutput_def blank_line)
  have two: "length (split_newline (s @ [LF])) \<ge> 2"
    by (simp add: length_split_newline)
  then have ne: "drop 1 (split_newline (s @ [LF])) \<noteq> []" by simp
  have "last (drop 1 (split_newline (s @ [LF]))) = []"
    using two last_split_newline_LF[of s] by (simp add: last_drop)
  then have "last (parsePsOutput (s @ [LF])) = parsePsOutput_line []"
    using ne by (simp add: parsePsOutput_def last_map)
  then have lastrow: "last (parsePsOutput (s @ [LF])) = \<lparr>command = [], parentPid = NaN, pid = NaN\<rparr>"
    by (simp add: blank_line)
  have "parsePsOutput (s @ [LF]) \<noteq> []" using ne by (simp add: parsePsOutput_def)
  with len blank_rows lastrow show ?thesis
    by (simp add: length_split_newline)
qed

theorem parsePsOutput_one_record_per_line_witness:
  "1 < length (parsePsOutput (lit ''PPID PID COMMAND\<newline>1 100 a\<newline>  \<newline>''))
   \<and> list_all isWhiteSpace (split_newline (lit ''PPID PID COMMAND\<newline>1 100 a\<newline>  \<newline>'') ! Suc 1)
   \<and> parsePsOutput (lit ''PPID PID COMMAND\<newline>1 100 a\<newline>  \<newline>'') ! 1 = \<lparr>command = [], parentPid = NaN, pid = NaN\<rparr>
   \<and> length (parsePsOutput (lit ''PPID PID COMMAND\<newline>1 100 a\<newline>  \<newline>'')) = 3"
  using parsePsOutput_one_record_per_line [of "lit ''PPID PID COMMAND\<newline>1 100 a\<newline>  \<newline>''"]
  by (simp add: lit_def LF_def CR_def isWhiteSpace_def)

lemma strict_eq_Num: "strict_eq x (Num p) \<longleftrightarrow> x = Num p"
  by (cases x) (auto simp: strict_eq_def)

lemmas env_eval = quiet_env_def getChildrenOfProcess_def psTree_def checkOutput_def asyncExecute_def
  isWindows_def strict_eq_def

text \<open>
  Claim C9. \<open>getChildrenOfProcess\<close> with a numeric pid returns the records of the
  process table whose \<open>parentPid\<close> is that pid, in the order of the table (the records
  parsed from the text of the listing command when that command succeeds); no returned
  record has the parent \<open>NaN\<close>. For rows with the parents 1, 50, 50 and the pids 50, 51,
  52 the children of 50 are the records with the pids 51 and 52.
\<close>

theorem getChildrenOfProcess_children:
  "fst (getChildrenOfProcess e (Num p) tr) =
     (case fst (psTree e tr) of
        Inl err \<Rightarrow> Inl err
      | Inr processes \<Rightarrow> Inr (filter (\<lambda>info. parentPid info = Num p) processes))
   \<and> (\<forall>children. fst (getChildrenOfProcess e (Num p) tr) = Inr children \<longrightarrow>
         list_all (\<lambda>info. parentPid info \<noteq> NaN) children)
   \<and> ((\<forall>c a. execFile_callback e tr c a = (None, out, errtxt)) \<longrightarrow>
        fst (getChildrenOfProcess e (Num p) tr) =
          Inr (filter (\<lambda>info. parentPid info = Num p) (parsePsOutput out)))
   \<and> fst (getChildrenOfProcess
            (quiet_env (lit ''linux'') (lit ''PPID PID COMMAND\<newline>1 50 a\<newline>50 51 b\<newline>50 52 c'') None)
            (Num 50) []) =
       Inr [\<lparr>command = lit ''b'', parentPid = Num 50, pid = Num 51\<rparr>,
            \<lparr>command = lit ''c'', parentPid = Num 50, pid = Num 52\<rparr>]"
proof -
  have 1: "fst (getChildrenOfProcess e (Num p) tr) =
     (case fst (psTree e tr) of
        Inl err \<Rightarrow> Inl err
      | Inr processes \<Rightarrow> Inr (filter (\<lambda>info. parentPid info = Num p) processes))"
    by (auto simp: getChildrenOfProcess_def strict_eq_Num split: prod.splits sum.splits)
  have 2: "\<forall>children. fst (getChildrenOfProcess e (Num p) tr) = Inr children \<longrightarrow>
         list_all (\<lambda>info. parentPid info \<noteq> NaN) children"
    unfolding 1 by (auto simp: list_all_iff split: sum.splits)
  have 3: "fst (getChildrenOfProcess
            (quiet_env (lit ''linux'') (lit ''PPID PID COMMAND\<newline>1 50 a\<newline>50 51 b\<newline>50 52 c'') None)
            (Num 50) []) =
       Inr [\<lparr>command = lit ''b'', parentPid = Num 50, pid = Num 51\<rparr>,
            \<lparr>command = lit ''c'', parentPid = Num 50, pid = Num 52\<rparr>]"
    by (simp add: env_eval parse_eval)
  have 4: "(\<forall>c a. execFile_callback e tr c a = (None, out, errtxt)) \<longrightarrow>
        fst (getChildrenOfProcess e (Num p) tr) =
          Inr (filter (\<lambda>info. parentPid info = Num p) (parsePsOutput out))"
    unfolding 1 by (simp add: psTree_def checkOutput_def asyncExecute_def)
  from 1 2 3 4 show ?thesis by blast
qed

theorem getChildrenOfProcess_children_witness:
  "fst (getChildrenOfProcess
          (quiet_env (lit ''linux'') (lit ''PPID PID COMMAND\<newline>1 50 a\<newline>x 51 b\<newline>50 52 c\<newline>'') None)
          (Num 50) []) = Inr [\<lparr>command = lit ''c'', parentPid = Num 50, pid = Num 52\<rparr>]
   \<and> list_all (\<lambda>info. parentPid info \<noteq> NaN) [\<lparr>command = lit ''c'', parentPid = Num 50, pid = Num 52\<rparr>]"
  using getChildrenOfProcess_children [of
     "quiet_env (lit ''linux'') (lit ''PPID PID COMMAND\<newline>1 50 a\<newline>x 51 b\<newline>50 52 c\<newline>'') None" 50 "[]"
     "lit ''PPID PID COMMAND\<newline>1 50 a\<newline>x 51 b\<newline>50 52 c\<newline>''" "[]"]
  by (simp add: env_eval parse_eval)

section \<open>Killing a process and its children\<close>










lemma killProcess_rejection_logged:
  assumes "fst (killProcess_async e cp killTree
      (tr @ [ConsoleLog (lit ''Ending process stream. Killing process '' @ Number_toString (proc_pid cp))]))
      = Inl r"
  shows "last (snd (killProcess e cp killTree tr)) =
           ConsoleError (lit ''Killing process '' @ Number_toString (proc_pid cp) @ lit '' failed'') r"
  using assms by (auto simp: killProcess_def split: prod.splits sum.splits)



lemmas kill_eval = killProcess_def killProcess_async_def killWindowsProcessTree_def
  ChildProcess_kill_def isWindows_def quiet_env_def fresh_process_def Number_toString_def lit_def




lemma decimal_1234: "decimal 1234 = lit ''1234''"
  by (simp add: decimal.simps lit_def)

text \<open>
  Claim C1 (what the code does). \<open>killWindowsProcessTree\<close> issues the one command
  \<open>taskkill /pid <pid> /T /F\<close>; its promise is rejected, with the reason \<open>null\<close>, when
  the command reports no error, and fulfilled when the command reports an error. So on
  Windows, in tree mode, a failed \<open>taskkill\<close> leaves no \<open>console.error\<close> call, and a
  successful one is logged as a failure.
\<close>

theorem killWindowsProcessTree_inverted:
  "fst (killWindowsProcessTree e p tr) =
     (if exec_callback e tr (lit ''taskkill /pid '' @ Number_toString p @ lit '' /T /F'') = None
      then Inl None else Inr ())
   \<and> snd (killProcess
        (quiet_env (lit ''win32'') []
           (Some \<lparr>err_code = CodeNumber 128, err_errno = None, err_message = lit ''Command failed''\<rparr>))
        (fresh_process 1234) True []) =
       [ConsoleLog (lit ''Ending process stream. Killing process 1234''),
        Exec (lit ''taskkill /pid 1234 /T /F'')]
   \<and> snd (killProcess (quiet_env (lit ''win32'') [] None) (fresh_process 1234) True []) =
       [ConsoleLog (lit ''Ending process stream. Killing process 1234''),
        Exec (lit ''taskkill /pid 1234 /T /F''),
        ConsoleError (lit ''Killing process 1234 failed'') None]"
  by (simp add: kill_eval decimal_1234 Let_def)



lemma ChildProcess_kill_wasKilled:
  "wasKilled (fst (snd (ChildProcess_kill e cp tr))) = wasKilled cp"
  by (simp add: ChildProcess_kill_def split: kill_outcome.splits)

lemma killUnixProcessTree_wasKilled:
  "wasKilled (fst (snd (killUnixProcessTree e cp tr))) = wasKilled cp"
  by (simp add: killUnixProcessTree_def ChildProcess_kill_wasKilled split: prod.splits sum.splits)

lemma killProcess_async_wasKilled:
  "wasKilled (fst (snd (killProcess_async e cp killTree tr)))"
  by (simp add: killProcess_async_def Let_def ChildProcess_kill_wasKilled
        killUnixProcessTree_wasKilled split: prod.splits)

lemma killProcess_wasKilled: "wasKilled (fst (killProcess e cp killTree tr))"
proof -
  obtain r cp' tr' where k: "killProcess_async e cp killTree
      (tr @ [ConsoleLog (lit ''Ending process stream. Killing process '' @ Number_toString (proc_pid cp))])
      = (r, cp', tr')"
    by (metis prod_cases3)
  then have "wasKilled cp'"
    using killProcess_async_wasKilled[of e cp killTree
      "tr @ [ConsoleLog (lit ''Ending process stream. Killing process '' @ Number_toString (proc_pid cp))]"]
    by simp
  then show ?thesis by (cases r) (simp_all add: killProcess_def k)
qed

lemma killProcess_async_flag_ignored:
  "killProcess_async e (cp\<lparr>wasKilled := b\<rparr>) killTree tr = killProcess_async e cp killTree tr"
  by (simp add: killProcess_async_def Let_def)

lemma killProcess_flag_ignored:
  "killProcess e (cp\<lparr>wasKilled := b\<rparr>) killTree tr = killProcess e cp killTree tr"
  by (simp add: killProcess_def killProcess_async_flag_ignored split: prod.splits sum.splits)

lemma killProcess_direct_trace:
  "snd (killProcess e cp False tr) =
     tr @ [ConsoleLog (lit ''Ending process stream. Killing process '' @ Number_toString (proc_pid cp)),
           ChildProcessKill (proc_pid cp)]
        @ (case childKill e
                  (tr @ [ConsoleLog (lit ''Ending process stream. Killing process ''
                                      @ Number_toString (proc_pid cp))])
                  (proc_pid cp) of
             KillThrows err \<Rightarrow>
               [ConsoleError (lit ''Killing process '' @ Number_toString (proc_pid cp) @ lit '' failed'')
                  (Some err)]
           | KillReturns sent \<Rightarrow> [])"
  by (simp add: killProcess_def killProcess_async_def ChildProcess_kill_def
        split: kill_outcome.splits)

lemma createProcessStream_finally_cases:
  "createProcessStream_finally e k st tr =
     (if wasKilled (stream_process st) \<or> finished st then (st, tr)
      else (st\<lparr>stream_process := fst (killProcess e (stream_process st) k tr)\<rparr>,
            snd (killProcess e (stream_process st) k tr)))"
  by (simp add: createProcessStream_finally_def split: prod.splits)

text \<open>
  Claim C2 (as amended). Every call of \<open>killProcess\<close> sets \<open>wasKilled\<close> on the handle, and
  it does not look at the flag: on a handle whose kill was already requested it does
  what it does on any other, which without tree mode is one \<open>kill()\<close> on the handle in
  each call. The teardown of the process stream calls \<open>killProcess\<close> exactly when
  \<open>wasKilled\<close> is unset and the stream is unfinished, and does nothing otherwise; so the
  teardown after a kill request makes no call. \<open>killProcess\<close> raises nothing: when the
  promise of \<open>_killProcess\<close> is rejected, the reason is passed to \<open>console.error\<close> as the
  last call.
\<close>

theorem killProcess_kill_requested:
  "wasKilled (fst (killProcess e cp killTree tr))
   \<and> killProcess e (cp\<lparr>wasKilled := True\<rparr>) killTree tr = killProcess e cp killTree tr
   \<and> snd (killProcess e cp False tr) =
       tr @ [ConsoleLog (lit ''Ending process stream. Killing process '' @ Number_toString (proc_pid cp)),
             ChildProcessKill (proc_pid cp)]
          @ (case childKill e
                    (tr @ [ConsoleLog (lit ''Ending process stream. Killing process ''
                                        @ Number_toString (proc_pid cp))])
                    (proc_pid cp) of
               KillThrows err \<Rightarrow>
                 [ConsoleError (lit ''Killing process '' @ Number_toString (proc_pid cp) @ lit '' failed'')
                    (Some err)]
             | KillReturns sent \<Rightarrow> [])
   \<and> createProcessStream_finally e k st tr2 =
       (if wasKilled (stream_process st) \<or> finished st then (st, tr2)
        else (st\<lparr>stream_process := fst (killProcess e (stream_process st) k tr2)\<rparr>,
              snd (killProcess e (stream_process st) k tr2)))
   \<and> createProcessStream_finally e k \<lparr>stream_process = fst (killProcess e cp killTree tr), finished = f\<rparr> tr2
       = (\<lparr>stream_process = fst (killProcess e cp killTree tr), finished = f\<rparr>, tr2)
   \<and> (\<forall>r. fst (killProcess_async e cp killTree
               (tr @ [ConsoleLog (lit ''Ending process stream. Killing process ''
                                   @ Number_toString (proc_pid cp))])) = Inl r \<longrightarrow>
          last (snd (killProcess e cp killTree tr)) =
            ConsoleError (lit ''Killing process '' @ Number_toString (proc_pid cp) @ lit '' failed'') r)"
proof -
  have 5: "createProcessStream_finally e k \<lparr>stream_process = fst (killProcess e cp killTree tr), finished = f\<rparr> tr2
       = (\<lparr>stream_process = fst (killProcess e cp killTree tr), finished = f\<rparr>, tr2)"
    using killProcess_wasKilled[of e cp killTree tr] by (simp add: createProcessStream_finally_cases)
  have 6: "\<forall>r. fst (killProcess_async e cp killTree
               (tr @ [ConsoleLog (lit ''Ending process stream. Killing process ''
                                   @ Number_toString (proc_pid cp))])) = Inl r \<longrightarrow>
          last (snd (killProcess e cp killTree tr)) =
            ConsoleError (lit ''Killing process '' @ Number_toString (proc_pid cp) @ lit '' failed'') r"
    using killProcess_rejection_logged[of e cp killTree tr] by blast
  show ?thesis
    apply (intro conjI)
         apply (rule killProcess_wasKilled)
        apply (rule killProcess_flag_ignored)
       apply (rule killProcess_direct_trace)
      apply (rule createProcessStream_finally_cases)
     apply (rule 5)
    apply (rule 6)
    done
qed

theorem killProcess_kill_requested_witness:
  "fst (killProcess_async
          ((quiet_env (lit ''linux'') [] None)\<lparr>childKill := (\<lambda>tr p. KillThrows ESRCH)\<rparr>)
          (fresh_process 7) False
          ([] @ [ConsoleLog (lit ''Ending process stream. Killing process ''
                              @ Number_toString (proc_pid (fresh_process 7)))]))
     = Inl (Some ESRCH)
   \<and> snd (killProcess
          ((quiet_env (lit ''linux'') [] None)\<lparr>childKill := (\<lambda>tr p. KillThrows ESRCH)\<rparr>)
          (fresh_process 7) False [])
     = [ConsoleLog (lit ''Ending process stream. Killing process 7''),
        ChildProcessKill 7,
        ConsoleError (lit ''Killing process 7 failed'') (Some ESRCH)]
   \<and> snd (createProcessStream_finally (quiet_env (lit ''linux'') [] None) False
            \<lparr>stream_process = fresh_process 7, finished = False\<rparr> [])
     = [ConsoleLog (lit ''Ending process stream. Killing process 7''), ChildProcessKill 7]
   \<and> snd (createProcessStream_finally (quiet_env (lit ''linux'') [] None) False
            \<lparr>stream_process = fresh_process 7, finished = True\<rparr> []) = []
   \<and> snd (createProcessStream_finally (quiet_env (lit ''linux'') [] None) False
            \<lparr>stream_process = (fresh_process 7)\<lparr>wasKilled := True\<rparr>, finished = False\<rparr> []) = []"
  using killProcess_kill_requested [of
      "(quiet_env (lit ''linux'') [] None)\<lparr>childKill := (\<lambda>tr p. KillThrows ESRCH)\<rparr>"
      "fresh_process 7" False "[]"]
    killProcess_kill_requested [of "quiet_env (lit ''linux'') [] None" "fresh_process 7" False "[]"
       False "\<lparr>stream_process = fresh_process 7, finished = False\<rparr>" "[]"]
    killProcess_kill_requested [of "quiet_env (lit ''linux'') [] None" "fresh_process 7" False "[]"
       False "\<lparr>stream_process = fresh_process 7, finished = True\<rparr>" "[]"]
    killProcess_kill_requested [of "quiet_env (lit ''linux'') [] None" "fresh_process 7" False "[]"
       False "\<lparr>stream_process = (fresh_process 7)\<lparr>wasKilled := True\<rparr>, finished = False\<rparr>" "[]"]
  by (simp add: kill_eval decimal.simps)

text \<open>
  Two calls of \<open>killProcess\<close> on one handle, without tree mode, make the \<open>kill()\<close> call
  twice.
\<close>

theorem killProcess_twice_counterexample:
  "\<not> length (filter (\<lambda>ef. ef = ChildProcessKill 7)
        (snd (killProcess (quiet_env (lit ''linux'') [] None)
                (fst (killProcess (quiet_env (lit ''linux'') [] None) (fresh_process 7) False []))
                False
                (snd (killProcess (quiet_env (lit ''linux'') [] None) (fresh_process 7) False []))))) \<le> 1"
  by (simp add: kill_eval decimal.simps)

text \<open>
  Claim C6. At subscription the process stream creates the process and checks that its
  exit code is unset and that it is not killed; otherwise the subscription fails with
  the \<open>AssertionError\<close> of the \<open>invariant\<close> and no stream state is set up.
\<close>

theorem createProcessStream_subscribe_invariant:
  "createProcessStream_subscribe createProcess =
     (if proc_exitCode (createProcess ()) \<noteq> None \<or> killed (createProcess ())
      then Inl (AssertionError (lit ''Process already exited. (This indicates a race condition in Nuclide.)''))
      else Inr \<lparr>stream_process = createProcess (), finished = False\<rparr>)"
  by (simp add: createProcessStream_subscribe_def Let_def)

theorem createProcessStream_subscribe_invariant_witness:
  "createProcessStream_subscribe (\<lambda>u. (fresh_process 5)\<lparr>proc_exitCode := Some 0\<rparr>) =
     Inl (AssertionError (lit ''Process already exited. (This indicates a race condition in Nuclide.)''))
   \<and> createProcessStream_subscribe (\<lambda>u. (fresh_process 5)\<lparr>killed := True\<rparr>) =
     Inl (AssertionError (lit ''Process already exited. (This indicates a race condition in Nuclide.)''))
   \<and> createProcessStream_subscribe (\<lambda>u. fresh_process 5) =
     Inr \<lparr>stream_process = fresh_process 5, finished = False\<rparr>"
  using createProcessStream_subscribe_invariant [of "\<lambda>u. (fresh_process 5)\<lparr>proc_exitCode := Some 0\<rparr>"]
    createProcessStream_subscribe_invariant [of "\<lambda>u. (fresh_process 5)\<lparr>killed := True\<rparr>"]
    createProcessStream_subscribe_invariant [of "\<lambda>u. fresh_process 5"]
  by (simp add: fresh_process_def)

lemma first_real_exit:
  "take1 \<lparr>emissions = filter (\<lambda>(t, x). (case x of Exit c s \<Rightarrow> s | _ \<Rightarrow> None) \<noteq> Some (lit ''SIGUSR1''))
                         (map (\<lambda>(t, x). (t, (\<lambda>(exitCode, signal). Exit exitCode signal) x)) evs),
          completion = None\<rparr> =
   (case dropWhile (\<lambda>(t, c, s). s = Some (lit ''SIGUSR1'')) evs of
      [] \<Rightarrow> \<lparr>emissions = [], completion = None\<rparr>
    | (t, c, s) # rest \<Rightarrow> \<lparr>emissions = [(t, Exit c s)], completion = Some t\<rparr>)"
proof (induction evs)
  case Nil
  then show ?case by (simp add: take1_def)
next
  case (Cons a evs)
  obtain t c s where a: "a = (t, c, s)" by (cases a)
  show ?case
  proof (cases "s = Some (lit ''SIGUSR1'')")
    case True
    with Cons a show ?thesis by simp
  next
    case False
    with a show ?thesis by (simp add: take1_def)
  qed
qed

text \<open>
  Claim C5. \<open>observeProcessExitMessage\<close> delivers nothing for the \<open>exit\<close> notifications
  whose signal is \<open>SIGUSR1\<close> and stays uncompleted while only such notifications arrive;
  the first notification with another signal, or none, gives the single exit message,
  with which the stream completes.
\<close>

theorem observeProcessExitMessage_first_real_exit:
  "observeProcessExitMessage process =
     (case dropWhile (\<lambda>(t, c, s). s = Some (lit ''SIGUSR1'')) (exit_events process) of
        [] \<Rightarrow> \<lparr>emissions = [], completion = None\<rparr>
      | (t, c, s) # rest \<Rightarrow> \<lparr>emissions = [(t, Exit c s)], completion = Some t\<rparr>)"
  using first_real_exit[of "exit_events process"]
  by (simp add: observeProcessExitMessage_def obs_filter_def obs_map_def fromEvent_def)

theorem observeProcessExitMessage_first_real_exit_witness:
  "observeProcessExitMessage
     ((fresh_process 5)\<lparr>exit_events := [(5, None, Some (lit ''SIGUSR1'')), (9, Some 0, None), (12, Some 1, None)]\<rparr>)
   = \<lparr>emissions = [(9, Exit (Some 0) None)], completion = Some 9\<rparr>
   \<and> observeProcessExitMessage
     ((fresh_process 5)\<lparr>exit_events := [(5, None, Some (lit ''SIGUSR1'')), (6, None, Some (lit ''SIGUSR1''))]\<rparr>)
   = \<lparr>emissions = [], completion = None\<rparr>"
  using observeProcessExitMessage_first_real_exit
     [of "(fresh_process 5)\<lparr>exit_events := [(5, None, Some (lit ''SIGUSR1'')), (9, Some 0, None), (12, Some 1, None)]\<rparr>"]
    observeProcessExitMessage_first_real_exit
     [of "(fresh_process 5)\<lparr>exit_events := [(5, None, Some (lit ''SIGUSR1'')), (6, None, Some (lit ''SIGUSR1''))]\<rparr>"]
  by (simp add: fresh_process_def lit_def)

section \<open>The output multiplexer\<close>

lemma terminal_simps:
  "\<not> terminal (Stdout d)" "\<not> terminal (Stderr d)" "terminal (Error e)" "terminal (Exit c s)"
  by (simp_all add: terminal_def lit_def)

lemma takeWhileInclusive_list_one:
  "length (filter (\<lambda>e. \<not> p (snd e)) (takeWhileInclusive_list p xs)) \<le> 1"
  by (induction xs) auto

lemma takeWhileInclusive_list_count:
  "length (filter (\<lambda>e. \<not> p (snd e)) (takeWhileInclusive_list p xs)) =
     (if \<exists>e\<in>set xs. \<not> p (snd e) then 1 else 0)"
  by (induction xs) auto

lemma takeWhileInclusive_list_last:
  "takeWhileInclusive_list p xs = ys @ e # zs \<Longrightarrow> \<not> p (snd e) \<Longrightarrow> zs = []"
proof (induction xs arbitrary: ys)
  case Nil
  then show ?case by simp
next
  case (Cons x xs)
  show ?case
  proof (cases "p (snd x)")
    case True
    with Cons.prems have eq: "x # takeWhileInclusive_list p xs = ys @ e # zs" by simp
    show ?thesis
    proof (cases ys)
      case Nil
      with eq True Cons.prems(2) show ?thesis by simp
    next
      case (Cons y ys')
      with eq have "takeWhileInclusive_list p xs = ys' @ e # zs" by simp
      then show ?thesis using Cons.IH Cons.prems(2) by blast
    qed
  next
    case False
    with Cons.prems have "[x] = ys @ e # zs" by simp
    then show ?thesis by (cases ys) auto
  qed
qed

lemma takeWhileInclusive_list_find:
  "(t, e) \<in> set (takeWhileInclusive_list p xs) \<Longrightarrow> \<not> p e \<Longrightarrow>
   find (\<lambda>(t, x). \<not> p x) xs = Some (t, e)"
  by (induction xs) (auto split: if_splits)

lemma merge_by_time_Nil2: "merge_by_time xs [] = xs"
  by (cases xs) auto

lemma set_merge_by_time: "set (merge_by_time xs ys) = set xs \<union> set ys"
  by (induction xs ys rule: merge_by_time.induct) auto

lemma observeProcessExitMessage_run:
  "observeProcessExitMessage P =
     (case dropWhile (\<lambda>(t, c, s). s = Some (lit ''SIGUSR1'')) (exit_events P) of
        [] \<Rightarrow> \<lparr>emissions = [], completion = None\<rparr>
      | (t, c, s) # rest \<Rightarrow> \<lparr>emissions = [(t, Exit c s)], completion = Some t\<rparr>)"
  using first_real_exit[of "exit_events P"]
  by (simp add: observeProcessExitMessage_def obs_filter_def obs_map_def fromEvent_def)

lemma exit_message_cases:
  "(emissions (observeProcessExitMessage P) = [] \<and> \<not> (\<exists>ev\<in>set (exit_events P). real_exit ev))
   \<or> (\<exists>t c s. emissions (observeProcessExitMessage P) = [(t, Exit c s)]
         \<and> (\<exists>ev\<in>set (exit_events P). real_exit ev))"
proof (cases "dropWhile (\<lambda>(t, c, s). s = Some (lit ''SIGUSR1'')) (exit_events P)")
  case Nil
  then have "\<forall>ev\<in>set (exit_events P). (\<lambda>(t, c, s). s = Some (lit ''SIGUSR1'')) ev"
    by (simp add: dropWhile_eq_Nil_conv)
  then have "\<not> (\<exists>ev\<in>set (exit_events P). real_exit ev)"
    by (auto simp: real_exit_def)
  moreover have "emissions (observeProcessExitMessage P) = []"
    unfolding observeProcessExitMessage_run Nil by simp
  ultimately show ?thesis by blast
next
  case (Cons a rest)
  obtain t c s where a: "a = (t, c, s)" by (cases a)
  have "a \<in> set (exit_events P)"
    by (metis Cons list.set_intros(1) set_dropWhileD)
  moreover have "\<not> (\<lambda>(t, c, s). s = Some (lit ''SIGUSR1'')) a"
    using Cons by (metis hd_dropWhile list.sel(1) list.distinct(1))
  ultimately have "a \<in> set (exit_events P) \<and> real_exit a"
    using a by (simp add: real_exit_def)
  then have "\<exists>ev\<in>set (exit_events P). real_exit ev" by blast
  moreover have "emissions (observeProcessExitMessage P) = [(t, Exit c s)]"
    unfolding observeProcessExitMessage_run Cons a by simp
  ultimately show ?thesis by blast
qed

lemma not_terminal_pred:
  "(\<lambda>event. kind event \<noteq> lit ''error'' \<and> kind event \<noteq> lit ''exit'') = (\<lambda>event. \<not> terminal event)"
  by (simp add: terminal_def)

lemma split_chunk_text:
  "split_chunk current chunk = (ls, rest) \<Longrightarrow> concat ls @ rest = current @ chunk"
proof (induction chunk arbitrary: current ls rest)
  case Nil
  then show ?case by simp
next
  case (Cons c cs)
  show ?case
  proof (cases "c = LF")
    case True
    obtain ls' rest' where s: "split_chunk [] cs = (ls', rest')" by (cases "split_chunk [] cs")
    with Cons.prems True have "ls = (current @ [c]) # ls'" "rest = rest'" by auto
    moreover have "concat ls' @ rest' = cs" using Cons.IH[OF s] by simp
    ultimately show ?thesis by simp
  next
    case False
    with Cons.prems have "split_chunk (current @ [c]) cs = (ls, rest)" by simp
    then show ?thesis using Cons.IH by fastforce
  qed
qed

lemma splitStream_from_text:
  "concat (map snd (splitStream_from current evs (Some e))) = current @ concat (map snd evs)"
proof (induction evs arbitrary: current)
  case Nil
  then show ?case by simp
next
  case (Cons a evs)
  obtain t chunk where a: "a = (t, chunk)" by (cases a)
  obtain ls rest where s: "split_chunk current chunk = (ls, rest)" by (cases "split_chunk current chunk")
  have "concat (map snd (map (Pair t) ls)) = concat ls" by (simp add: comp_def)
  then show ?case
    using Cons.IH[of rest] split_chunk_text[OF s] a s by (simp del: map_map)
qed

lemma splitStream_text:
  "completion input = Some e \<Longrightarrow>
   concat (map snd (emissions (splitStream input))) = concat (map snd (emissions input))"
  by (simp add: splitStream_def splitStream_from_text)

lemma takeWhile_sorted_times:
  "sorted (map fst xs) \<Longrightarrow> takeWhile (\<lambda>(t, d). t \<le> T) xs = filter (\<lambda>(t, d). t \<le> (T::nat)) xs"
proof (induction xs)
  case Nil
  then show ?case by simp
next
  case (Cons x xs)
  show ?case
  proof (cases "fst x \<le> T")
    case True
    with Cons show ?thesis by (cases x) auto
  next
    case False
    with Cons.prems have "\<forall>y\<in>set xs. \<not> fst y \<le> T" by auto
    then have "filter (\<lambda>(t, d). t \<le> T) xs = []" by (auto simp: filter_empty_conv)
    with False show ?thesis by (cases x) auto
  qed
qed


lemma subscribe_fresh:
  "proc_exitCode P = None \<Longrightarrow> \<not> killed P \<Longrightarrow>
   createProcessStream_subscribe (\<lambda>u. P) = Inr \<lparr>stream_process = P, finished = False\<rparr>"
  by (simp add: createProcessStream_subscribe_def)

lemma getOutputStream_stale:
  "proc_exitCode P \<noteq> None \<or> killed P \<Longrightarrow>
   getOutputStream P =
     Inl (AssertionError (lit ''Process already exited. (This indicates a race condition in Nuclide.)''))"
  by (auto simp: getOutputStream_def observeProcessExit_def createProcessStream_run_def
        createProcessStream_subscribe_def)

lemma emissions_handle_run:
  "emissions (takeUntil (takeUntil (merge (obs_of P) never) (fromEvent (error_events P)))
               (observeProcessExitMessage P)) = [(0, P)]"
  by (simp add: takeUntil_def merge_def obs_of_def never_def fromEvent_def
        split: list.splits prod.splits)

lemma emissions_flatMap_single:
  "emissions r = [(t0, x)] \<Longrightarrow> emissions (flatMap f r) = emissions (f x)"
  by (simp add: flatMap_def merge_def merge_by_time_Nil2)

lemma observeProcessExit_fresh:
  assumes "proc_exitCode P = None" and "\<not> killed P"
  shows "\<exists>exit_run. observeProcessExit (\<lambda>u. P) = Inr exit_run
           \<and> emissions exit_run = emissions (observeProcessExitMessage P)"
  by (simp add: observeProcessExit_def createProcessStream_run_def subscribe_fresh[OF assms]
        Let_def emissions_flatMap_single[OF emissions_handle_run])

lemma emissions_close:
  "emissions (getOutputStream_close (publishReplay exit_run)) =
     map (\<lambda>(t, x). (t + 100, x)) (emissions exit_run)"
  by (simp add: getOutputStream_close_def delay_def publishReplay_def split_def)

lemma emissions_error:
  "emissions (getOutputStream_error P) = map (\<lambda>(t, e). (t, Error e)) (error_events P)"
  by (simp add: getOutputStream_error_def obs_map_def fromEvent_def)

lemma error_terminal:
  "(\<exists>e\<in>set (map (\<lambda>(t, e). (t, Error e)) (error_events P)). terminal (snd e)) \<longleftrightarrow> error_events P \<noteq> []"
  by (cases "error_events P") (auto simp: terminal_simps)

lemma stdout_not_terminal:
  "e \<in> set (emissions (getOutputStream_stdout P cl)) \<Longrightarrow> \<not> terminal (snd e)"
  by (auto simp: getOutputStream_stdout_def obs_map_def terminal_simps)

lemma stderr_not_terminal:
  "e \<in> set (emissions (getOutputStream_stderr P cl)) \<Longrightarrow> \<not> terminal (snd e)"
  by (auto simp: getOutputStream_stderr_def obs_map_def terminal_simps)

lemma inner_not_terminal:
  "e \<in> set (merge_by_time (emissions (getOutputStream_stdout P cl)) (emissions (getOutputStream_stderr P cl)))
   \<Longrightarrow> \<not> terminal (snd e)"
  using stdout_not_terminal[of e P cl] stderr_not_terminal[of e P cl] by (auto simp: set_merge_by_time)

lemma gated_run:
  assumes "emissions cl = [(T, m)]"
  shows "splitStream (takeUntil (observeStream stream) cl) =
           \<lparr>emissions = gated_lines stream T, completion = Some (close_time stream T)\<rparr>"
  using assms
  by (simp add: splitStream_def takeUntil_def gated_lines_def close_time_def observeStream_def
        split: option.splits)

lemma stdout_gated:
  assumes "emissions cl = [(T, m)]"
  shows "getOutputStream_stdout P cl =
           \<lparr>emissions = map (\<lambda>(t, d). (t, Stdout d)) (gated_lines (proc_stdout P) T),
            completion = Some (close_time (proc_stdout P) T)\<rparr>"
  by (simp add: getOutputStream_stdout_def gated_run[OF assms] obs_map_def)

lemma stderr_gated:
  assumes "emissions cl = [(T, m)]"
  shows "getOutputStream_stderr P cl =
           \<lparr>emissions = map (\<lambda>(t, d). (t, Stderr d)) (gated_lines (proc_stderr P) T),
            completion = Some (close_time (proc_stderr P) T)\<rparr>"
  by (simp add: getOutputStream_stderr_def gated_run[OF assms] obs_map_def)

lemma getOutputStream_fresh:
  assumes "observeProcessExit (\<lambda>u. P) = Inr exit_run"
  shows "getOutputStream P =
     Inr (takeWhileInclusive
            (merge
               (obs_concat
                  (merge (getOutputStream_stdout P (getOutputStream_close (publishReplay exit_run)))
                         (getOutputStream_stderr P (getOutputStream_close (publishReplay exit_run))))
                  (publishReplay exit_run))
               (getOutputStream_error P))
            (\<lambda>event. \<not> terminal event))"
  by (simp add: getOutputStream_def assms Let_def not_terminal_pred)

lemma delivered_no_exit:
  assumes "observeProcessExit (\<lambda>u. P) = Inr exit_run" and "emissions exit_run = []"
  shows "delivered (getOutputStream P) =
     takeWhileInclusive_list (\<lambda>event. \<not> terminal event)
       (merge_by_time
          (merge_by_time
             (emissions (getOutputStream_stdout P (getOutputStream_close (publishReplay exit_run))))
             (emissions (getOutputStream_stderr P (getOutputStream_close (publishReplay exit_run)))))
          (map (\<lambda>(t, e). (t, Error e)) (error_events P)))"
  using assms(2)
  by (simp add: getOutputStream_fresh[OF assms(1)] delivered_def takeWhileInclusive_def merge_def
        obs_concat_def publishReplay_def emissions_error split: option.splits)

lemma delivered_exit:
  assumes "observeProcessExit (\<lambda>u. P) = Inr exit_run" and "emissions exit_run = [(te, m)]"
  shows "delivered (getOutputStream P) =
     takeWhileInclusive_list (\<lambda>event. \<not> terminal event)
       (merge_by_time
          (merge_by_time
             (map (\<lambda>(t, d). (t, Stdout d)) (gated_lines (proc_stdout P) (te + 100)))
             (map (\<lambda>(t, d). (t, Stderr d)) (gated_lines (proc_stderr P) (te + 100)))
           @ [(max (max (close_time (proc_stdout P) (te + 100)) (close_time (proc_stderr P) (te + 100))) te,
               m)])
          (map (\<lambda>(t, e). (t, Error e)) (error_events P)))"
proof -
  have cl: "emissions (getOutputStream_close (publishReplay exit_run)) = [(te + 100, m)]"
    using assms(2) by (simp add: emissions_close)
  show ?thesis
    using assms(2)
    by (simp add: getOutputStream_fresh[OF assms(1)] delivered_def takeWhileInclusive_def merge_def
          obs_concat_def publishReplay_def emissions_error stdout_gated[OF cl] stderr_gated[OF cl])
qed

lemma delivered_cut:
  "\<exists>M. delivered (getOutputStream P) = takeWhileInclusive_list (\<lambda>event. \<not> terminal event) M"
proof (cases "proc_exitCode P = None \<and> \<not> killed P")
  case True
  then obtain exit_run where "observeProcessExit (\<lambda>u. P) = Inr exit_run"
    using observeProcessExit_fresh[of P] by blast
  then show ?thesis
    by (simp add: getOutputStream_fresh delivered_def takeWhileInclusive_def) blast
next
  case False
  then have "delivered (getOutputStream P) = takeWhileInclusive_list (\<lambda>event. \<not> terminal event) []"
    using getOutputStream_stale[of P] by (auto simp: delivered_def)
  then show ?thesis by blast
qed

lemma terminal_count:
  "length (filter (\<lambda>e. terminal (snd e)) (delivered (getOutputStream P))) =
     (if proc_exitCode P = None \<and> \<not> killed P
         \<and> (error_events P \<noteq> [] \<or> (\<exists>ev\<in>set (exit_events P). real_exit ev)) then 1 else 0)"
proof (cases "proc_exitCode P = None \<and> \<not> killed P")
  case False
  then show ?thesis using getOutputStream_stale[of P] by (auto simp: delivered_def)
next
  case True
  then obtain exit_run where x: "observeProcessExit (\<lambda>u. P) = Inr exit_run"
    and ex: "emissions exit_run = emissions (observeProcessExitMessage P)"
    using observeProcessExit_fresh[of P] by blast
  let ?p = "\<lambda>event. \<not> terminal event"
  let ?ER = "map (\<lambda>(t, e). (t, Error e)) (error_events P)"
  from exit_message_cases[of P] show ?thesis
  proof
    assume a: "emissions (observeProcessExitMessage P) = [] \<and> \<not> (\<exists>ev\<in>set (exit_events P). real_exit ev)"
    let ?I = "merge_by_time
             (emissions (getOutputStream_stdout P (getOutputStream_close (publishReplay exit_run))))
             (emissions (getOutputStream_stderr P (getOutputStream_close (publishReplay exit_run))))"
    have d: "delivered (getOutputStream P) = takeWhileInclusive_list ?p (merge_by_time ?I ?ER)"
      using delivered_no_exit[OF x] a ex by simp
    have "(\<exists>e\<in>set (merge_by_time ?I ?ER). \<not> ?p (snd e)) \<longleftrightarrow> error_events P \<noteq> []"
      using inner_not_terminal[of _ P "getOutputStream_close (publishReplay exit_run)"]
        error_terminal[of P]
      by (auto simp: set_merge_by_time)
    then show ?thesis
      using takeWhileInclusive_list_count[of ?p "merge_by_time ?I ?ER"] a True
      by (simp add: d)
  next
    assume "\<exists>t c s. emissions (observeProcessExitMessage P) = [(t, Exit c s)]
         \<and> (\<exists>ev\<in>set (exit_events P). real_exit ev)"
    then obtain t c s where a: "emissions (observeProcessExitMessage P) = [(t, Exit c s)]"
      and r: "\<exists>ev\<in>set (exit_events P). real_exit ev" by blast
    let ?I = "merge_by_time
             (map (\<lambda>(t, d). (t, Stdout d)) (gated_lines (proc_stdout P) (t + 100)))
             (map (\<lambda>(t, d). (t, Stderr d)) (gated_lines (proc_stderr P) (t + 100)))
           @ [(max (max (close_time (proc_stdout P) (t + 100)) (close_time (proc_stderr P) (t + 100))) t,
               Exit c s)]"
    have d: "delivered (getOutputStream P) = takeWhileInclusive_list ?p (merge_by_time ?I ?ER)"
      using delivered_exit[OF x, of t "Exit c s"] a ex by simp
    have "\<exists>e\<in>set (merge_by_time ?I ?ER). \<not> ?p (snd e)"
      by (simp add: set_merge_by_time terminal_simps)
    then show ?thesis
      using takeWhileInclusive_list_count[of ?p "merge_by_time ?I ?ER"] r True
      by (simp add: d)
  qed
qed

lemma terminal_completes:
  assumes "getOutputStream P = Inr out" and "(t, event) \<in> set (emissions out)" and "terminal event"
  shows "completion out = Some t"
proof -
  have "proc_exitCode P = None \<and> \<not> killed P"
  proof (cases "proc_exitCode P \<noteq> None \<or> killed P")
    case True
    then show ?thesis using getOutputStream_stale[OF True] assms(1) by simp
  next
    case False
    then show ?thesis by simp
  qed
  then obtain exit_run where x: "observeProcessExit (\<lambda>u. P) = Inr exit_run"
    using observeProcessExit_fresh[of P] by blast
  let ?src = "merge
               (obs_concat
                  (merge (getOutputStream_stdout P (getOutputStream_close (publishReplay exit_run)))
                         (getOutputStream_stderr P (getOutputStream_close (publishReplay exit_run))))
                  (publishReplay exit_run))
               (getOutputStream_error P)"
  have out: "out = takeWhileInclusive ?src (\<lambda>event. \<not> terminal event)"
    using getOutputStream_fresh[OF x] assms(1) by simp
  then have "(t, event) \<in> set (takeWhileInclusive_list (\<lambda>event. \<not> terminal event) (emissions ?src))"
    using assms(2) by (simp add: takeWhileInclusive_def)
  then have "find (\<lambda>(t, x). \<not> \<not> terminal x) (emissions ?src) = Some (t, event)"
    using takeWhileInclusive_list_find[of t event "\<lambda>event. \<not> terminal event" "emissions ?src"] assms(3)
    by simp
  then show ?thesis by (simp add: out takeWhileInclusive_def)
qed

lemmas stream_eval = getOutputStream_def observeProcessExit_def createProcessStream_run_def
  createProcessStream_subscribe_def delivered_def takeWhileInclusive_def merge_def obs_concat_def
  getOutputStream_stdout_def getOutputStream_stderr_def getOutputStream_close_def
  getOutputStream_error_def obs_map_def splitStream_def takeUntil_def
  observeStream_def delay_def publishReplay_def flatMap_def
  observeProcessExitMessage_def take1_def obs_filter_def
  fromEvent_def obs_of_def never_def fresh_process_def lit_def LF_def Let_def

text \<open>
  Claim C3 (as amended). When the handle is not fresh at the subscription (its exit code
  is set or it is killed), \<open>getOutputStream\<close> fails with the \<open>AssertionError\<close> and
  delivers nothing. When it is fresh, the sequence delivered holds at most one terminal
  event (of kind \<open>error\<close> or \<open>exit\<close>), and exactly one when the process dispatches an
  \<open>error\<close> notification or an \<open>exit\<close> notification whose signal is not \<open>SIGUSR1\<close>. A
  terminal event is the last element, nothing follows it, and the sequence completes
  with it.
\<close>

theorem getOutputStream_terminal:
  "(proc_exitCode P \<noteq> None \<or> killed P \<longrightarrow>
      getOutputStream P =
        Inl (AssertionError (lit ''Process already exited. (This indicates a race condition in Nuclide.)'')))
   \<and> length (filter (\<lambda>e. terminal (snd e)) (delivered (getOutputStream P))) =
       (if proc_exitCode P = None \<and> \<not> killed P
           \<and> (error_events P \<noteq> [] \<or> (\<exists>ev\<in>set (exit_events P). real_exit ev)) then 1 else 0)
   \<and> (\<forall>ys e zs. delivered (getOutputStream P) = ys @ e # zs \<and> terminal (snd e) \<longrightarrow> zs = [])
   \<and> (\<forall>out t event. getOutputStream P = Inr out \<and> (t, event) \<in> set (emissions out) \<and> terminal event \<longrightarrow>
         completion out = Some t)"
proof -
  have 1: "proc_exitCode P \<noteq> None \<or> killed P \<longrightarrow>
      getOutputStream P =
        Inl (AssertionError (lit ''Process already exited. (This indicates a race condition in Nuclide.)''))"
    using getOutputStream_stale[of P] by blast
  obtain M where M: "delivered (getOutputStream P) = takeWhileInclusive_list (\<lambda>event. \<not> terminal event) M"
    using delivered_cut[of P] by blast
  have 3: "\<forall>ys e zs. delivered (getOutputStream P) = ys @ e # zs \<and> terminal (snd e) \<longrightarrow> zs = []"
    using takeWhileInclusive_list_last[of "\<lambda>event. \<not> terminal event" M] by (auto simp: M)
  have 4: "\<forall>out t event. getOutputStream P = Inr out \<and> (t, event) \<in> set (emissions out) \<and> terminal event \<longrightarrow>
         completion out = Some t"
    using terminal_completes[of P] by blast
  show ?thesis
    apply (intro conjI)
       apply (rule 1)
      apply (rule terminal_count)
     apply (rule 3)
    apply (rule 4)
    done
qed

theorem getOutputStream_terminal_witness:
  "(\<exists>ev\<in>set [(4, None, Some (lit ''SIGUSR1'')), (10, None, Some (lit ''SIGTERM''))]. real_exit ev)
   \<and> getOutputStream
     ((fresh_process 5)
        \<lparr>proc_stderr := \<lparr>data_events = [(2, lit ''warn''), (50, lit ''ing'')], end_event = Some 60\<rparr>,
         error_events := [(300, ESRCH)],
         exit_events := [(4, None, Some (lit ''SIGUSR1'')), (10, None, Some (lit ''SIGTERM''))]\<rparr>) =
     Inr \<lparr>emissions = [(60, Stderr (lit ''warning'')), (110, Exit None (Some (lit ''SIGTERM'')))],
          completion = Some 110\<rparr>
   \<and> length (filter (\<lambda>e. terminal (snd e)) (delivered (getOutputStream
     ((fresh_process 5)
        \<lparr>proc_stderr := \<lparr>data_events = [(2, lit ''warn''), (50, lit ''ing'')], end_event = Some 60\<rparr>,
         error_events := [(300, ESRCH)],
         exit_events := [(4, None, Some (lit ''SIGUSR1'')), (10, None, Some (lit ''SIGTERM''))]\<rparr>)))) = 1
   \<and> getOutputStream ((fresh_process 5)\<lparr>killed := True, exit_events := [(10, Some 0, None)]\<rparr>) =
       Inl (AssertionError (lit ''Process already exited. (This indicates a race condition in Nuclide.)''))"
  using getOutputStream_terminal [of
     "(fresh_process 5)
        \<lparr>proc_stderr := \<lparr>data_events = [(2, lit ''warn''), (50, lit ''ing'')], end_event = Some 60\<rparr>,
         error_events := [(300, ESRCH)],
         exit_events := [(4, None, Some (lit ''SIGUSR1'')), (10, None, Some (lit ''SIGTERM''))]\<rparr>"]
    getOutputStream_terminal [of "(fresh_process 5)\<lparr>killed := True, exit_events := [(10, Some 0, None)]\<rparr>"]
  by (simp add: stream_eval real_exit_def terminal_def)

text \<open>
  A fresh process that writes a line and whose only \<open>exit\<close> notification bears
  \<open>SIGUSR1\<close>: the sequence delivered holds no terminal event.
\<close>

theorem getOutputStream_terminal_counterexample:
  "\<not> length (filter (\<lambda>e. terminal (snd e))
        (delivered (getOutputStream
           ((fresh_process 5)
              \<lparr>proc_stdout := \<lparr>data_events = [(1, lit ''a\<newline>'')], end_event = None\<rparr>,
               exit_events := [(3, None, Some (lit ''SIGUSR1''))]\<rparr>)))) = 1"
  by (simp add: stream_eval terminal_def)

lemma takeWhileInclusive_list_snoc:
  "(\<forall>e\<in>set xs. p (snd e)) \<Longrightarrow> \<not> p (snd z) \<Longrightarrow>
   takeWhileInclusive_list p (xs @ [z]) = xs @ [z]"
  by (induction xs) auto

lemma merge_text_left:
  "(\<forall>y\<in>set ys. f (snd y) = []) \<Longrightarrow>
   concat (map (f \<circ> snd) (merge_by_time xs ys)) = concat (map (f \<circ> snd) xs)"
  by (induction xs ys rule: merge_by_time.induct) auto

lemma merge_text_right:
  "(\<forall>x\<in>set xs. f (snd x) = []) \<Longrightarrow>
   concat (map (f \<circ> snd) (merge_by_time xs ys)) = concat (map (f \<circ> snd) ys)"
  by (induction xs ys rule: merge_by_time.induct) auto

lemma gated_lines_text:
  "concat (map snd (gated_lines stream T)) =
     concat (map snd (takeWhile (\<lambda>(t, d). t \<le> T) (emissions (observeStream stream))))"
  by (simp add: gated_lines_def splitStream_from_text)

lemma sorted_takeWhile_times:
  "sorted (map fst xs) \<Longrightarrow> sorted (map fst (takeWhile (\<lambda>(t, d). t \<le> (T::nat)) xs))"
  by (simp add: takeWhile_sorted_times sorted_filter)

lemma chunks_until_sorted:
  assumes "sorted (map fst (data_events stream))"
  shows "takeWhile (\<lambda>(t, d). t \<le> T) (emissions (observeStream stream)) = chunks_until stream T"
proof (cases "end_event stream")
  case None
  then show ?thesis
    using takeWhile_sorted_times[OF assms, of T]
    by (simp add: observeStream_def chunks_until_def)
next
  case (Some e)
  have 1: "takeWhile (\<lambda>(t, d). t \<le> e) (data_events stream) = filter (\<lambda>(t, d). t \<le> e) (data_events stream)"
    by (rule takeWhile_sorted_times[OF assms])
  have "sorted (map fst (filter (\<lambda>(t, d). t \<le> e) (data_events stream)))"
    using assms by (rule sorted_filter)
  then have 2: "takeWhile (\<lambda>(t, d). t \<le> T) (filter (\<lambda>(t, d). t \<le> e) (data_events stream)) =
             filter (\<lambda>(t, d). t \<le> T) (filter (\<lambda>(t, d). t \<le> e) (data_events stream))"
    by (rule takeWhile_sorted_times)
  have "filter (\<lambda>(t, d). t \<le> T) (filter (\<lambda>(t, d). t \<le> e) (data_events stream)) =
        filter (\<lambda>(t, d). t \<le> T \<and> t \<le> e) (data_events stream)"
    by (simp add: split_def conj_commute)
  then show ?thesis
    using Some by (simp add: observeStream_def chunks_until_def 1 2)
qed

lemma delivered_exit_no_error:
  assumes "observeProcessExit (\<lambda>u. P) = Inr exit_run" and "emissions exit_run = [(te, Exit c s)]"
      and "error_events P = []"
  shows "delivered (getOutputStream P) =
       merge_by_time
          (map (\<lambda>(t, d). (t, Stdout d)) (gated_lines (proc_stdout P) (te + 100)))
          (map (\<lambda>(t, d). (t, Stderr d)) (gated_lines (proc_stderr P) (te + 100)))
        @ [(max (max (close_time (proc_stdout P) (te + 100)) (close_time (proc_stderr P) (te + 100))) te,
            Exit c s)]"
proof -
  let ?I = "merge_by_time
          (map (\<lambda>(t, d). (t, Stdout d)) (gated_lines (proc_stdout P) (te + 100)))
          (map (\<lambda>(t, d). (t, Stderr d)) (gated_lines (proc_stderr P) (te + 100)))"
  have "\<forall>e\<in>set ?I. \<not> terminal (snd e)"
    by (auto simp: set_merge_by_time terminal_simps)
  then show ?thesis
    using takeWhileInclusive_list_snoc[of ?I "\<lambda>event. \<not> terminal event"]
    by (simp add: delivered_exit[OF assms(1,2)] assms(3) merge_by_time_Nil2 terminal_simps)
qed

lemma stdout_text_of_lines:
  "concat (map (stdout_data \<circ> snd \<circ> (\<lambda>(t, d). (t, Stdout d))) ls) = concat (map snd ls)"
  by (induction ls) auto

lemma stderr_text_of_lines:
  "concat (map (stderr_data \<circ> snd \<circ> (\<lambda>(t, d). (t, Stderr d))) ls) = concat (map snd ls)"
  by (induction ls) auto

lemma delivered_text:
  assumes "observeProcessExit (\<lambda>u. P) = Inr exit_run" and "emissions exit_run = [(te, Exit c s)]"
      and "error_events P = []"
  shows "concat (map (stdout_data \<circ> snd) (delivered (getOutputStream P))) =
           concat (map snd (takeWhile (\<lambda>(t, d). t \<le> te + 100) (emissions (observeStream (proc_stdout P)))))"
    and "concat (map (stderr_data \<circ> snd) (delivered (getOutputStream P))) =
           concat (map snd (takeWhile (\<lambda>(t, d). t \<le> te + 100) (emissions (observeStream (proc_stderr P)))))"
proof -
  let ?SO = "map (\<lambda>(t, d). (t, Stdout d)) (gated_lines (proc_stdout P) (te + 100))"
  let ?SE = "map (\<lambda>(t, d). (t, Stderr d)) (gated_lines (proc_stderr P) (te + 100))"
  have so: "\<forall>x\<in>set ?SO. stderr_data (snd x) = []" by auto
  have se: "\<forall>y\<in>set ?SE. stdout_data (snd y) = []" by auto
  show "concat (map (stdout_data \<circ> snd) (delivered (getOutputStream P))) =
           concat (map snd (takeWhile (\<lambda>(t, d). t \<le> te + 100) (emissions (observeStream (proc_stdout P)))))"
    using merge_text_left[OF se, of ?SO]
    by (simp add: delivered_exit_no_error[OF assms] stdout_text_of_lines gated_lines_text)
  show "concat (map (stderr_data \<circ> snd) (delivered (getOutputStream P))) =
           concat (map snd (takeWhile (\<lambda>(t, d). t \<le> te + 100) (emissions (observeStream (proc_stderr P)))))"
    using merge_text_right[OF so, of ?SE]
    by (simp add: delivered_exit_no_error[OF assms] stderr_text_of_lines gated_lines_text)
qed

text \<open>
  Claim C4. For a handle that is fresh at the subscription, when the exit message is
  delivered at time \<open>te\<close>: the close signal of \<open>getOutputStream\<close> is that message at
  \<open>te + 100\<close>; \<open>stdout\<close> and \<open>stderr\<close> deliver the lines of the chunks that arrive up to
  \<open>te + 100\<close>, not only up to \<open>te\<close> (a chunk at the very time of the close signal passes
  by the convention of \<open>takeUntil\<close> here); and the sequence delivered is these lines,
  merged, then the exit message, cut at the first \<open>error\<close> notification if one comes
  before. When no \<open>error\<close> notification occurs, the text delivered on stdout is the text
  of all chunks of stdout that arrive up to \<open>te + 100\<close>, those after the exit included,
  and likewise for stderr.
\<close>

theorem getOutputStream_grace_period:
  assumes "proc_exitCode P = None" and "\<not> killed P"
      and "emissions (observeProcessExitMessage P) = [(te, m)]"
  shows "(\<exists>exit_run. observeProcessExit (\<lambda>u. P) = Inr exit_run
           \<and> emissions (getOutputStream_close (publishReplay exit_run)) = [(te + 100, m)]
           \<and> emissions (getOutputStream_stdout P (getOutputStream_close (publishReplay exit_run))) =
               map (\<lambda>(t, d). (t, Stdout d)) (gated_lines (proc_stdout P) (te + 100))
           \<and> emissions (getOutputStream_stderr P (getOutputStream_close (publishReplay exit_run))) =
               map (\<lambda>(t, d). (t, Stderr d)) (gated_lines (proc_stderr P) (te + 100)))
   \<and> delivered (getOutputStream P) =
       takeWhileInclusive_list (\<lambda>event. \<not> terminal event)
         (merge_by_time
            (merge_by_time
               (map (\<lambda>(t, d). (t, Stdout d)) (gated_lines (proc_stdout P) (te + 100)))
               (map (\<lambda>(t, d). (t, Stderr d)) (gated_lines (proc_stderr P) (te + 100)))
             @ [(max (max (close_time (proc_stdout P) (te + 100)) (close_time (proc_stderr P) (te + 100))) te,
                 m)])
            (map (\<lambda>(t, e). (t, Error e)) (error_events P)))
   \<and> (error_events P = [] \<longrightarrow>
        delivered (getOutputStream P) =
          merge_by_time
            (map (\<lambda>(t, d). (t, Stdout d)) (gated_lines (proc_stdout P) (te + 100)))
            (map (\<lambda>(t, d). (t, Stderr d)) (gated_lines (proc_stderr P) (te + 100)))
          @ [(max (max (close_time (proc_stdout P) (te + 100)) (close_time (proc_stderr P) (te + 100))) te,
              m)])
   \<and> (error_events P = [] \<and> sorted (map fst (data_events (proc_stdout P))) \<longrightarrow>
        concat (map (stdout_data \<circ> snd) (delivered (getOutputStream P))) =
          concat (map snd (chunks_until (proc_stdout P) (te + 100))))
   \<and> (error_events P = [] \<and> sorted (map fst (data_events (proc_stderr P))) \<longrightarrow>
        concat (map (stderr_data \<circ> snd) (delivered (getOutputStream P))) =
          concat (map snd (chunks_until (proc_stderr P) (te + 100))))"
proof -
  obtain exit_run where x: "observeProcessExit (\<lambda>u. P) = Inr exit_run"
    and ex: "emissions exit_run = [(te, m)]"
    using observeProcessExit_fresh[OF assms(1,2)] assms(3) by auto
  obtain c s where m: "m = Exit c s"
    using exit_message_cases[of P] assms(3) by auto
  have cl: "emissions (getOutputStream_close (publishReplay exit_run)) = [(te + 100, m)]"
    using ex by (simp add: emissions_close)
  have 1: "\<exists>exit_run. observeProcessExit (\<lambda>u. P) = Inr exit_run
           \<and> emissions (getOutputStream_close (publishReplay exit_run)) = [(te + 100, m)]
           \<and> emissions (getOutputStream_stdout P (getOutputStream_close (publishReplay exit_run))) =
               map (\<lambda>(t, d). (t, Stdout d)) (gated_lines (proc_stdout P) (te + 100))
           \<and> emissions (getOutputStream_stderr P (getOutputStream_close (publishReplay exit_run))) =
               map (\<lambda>(t, d). (t, Stderr d)) (gated_lines (proc_stderr P) (te + 100))"
    using x cl by (simp add: stdout_gated[OF cl] stderr_gated[OF cl])
  have 3: "error_events P = [] \<longrightarrow>
        delivered (getOutputStream P) =
          merge_by_time
            (map (\<lambda>(t, d). (t, Stdout d)) (gated_lines (proc_stdout P) (te + 100)))
            (map (\<lambda>(t, d). (t, Stderr d)) (gated_lines (proc_stderr P) (te + 100)))
          @ [(max (max (close_time (proc_stdout P) (te + 100)) (close_time (proc_stderr P) (te + 100))) te,
              m)]"
    using delivered_exit_no_error[OF x, of te c s] ex m by simp
  have 4: "error_events P = [] \<and> sorted (map fst (data_events (proc_stdout P))) \<longrightarrow>
        concat (map (stdout_data \<circ> snd) (delivered (getOutputStream P))) =
          concat (map snd (chunks_until (proc_stdout P) (te + 100)))"
    using delivered_text(1)[OF x, of te c s] ex m chunks_until_sorted[of "proc_stdout P" "te + 100"]
    by simp
  have 5: "error_events P = [] \<and> sorted (map fst (data_events (proc_stderr P))) \<longrightarrow>
        concat (map (stderr_data \<circ> snd) (delivered (getOutputStream P))) =
          concat (map snd (chunks_until (proc_stderr P) (te + 100)))"
    using delivered_text(2)[OF x, of te c s] ex m chunks_until_sorted[of "proc_stderr P" "te + 100"]
    by simp
  show ?thesis
    apply (intro conjI)
        apply (rule 1)
       apply (rule delivered_exit[OF x ex])
      apply (rule 3)
     apply (rule 4)
    apply (rule 5)
    done
qed

theorem getOutputStream_grace_period_witness:
  "proc_exitCode ((fresh_process 5)
        \<lparr>proc_stdout := \<lparr>data_events = [(1, lit ''a\<newline>b''), (20, lit ''c\<newline>''), (150, lit ''late\<newline>'')], end_event = None\<rparr>,
         proc_stderr := \<lparr>data_events = [(105, lit ''bye'')], end_event = None\<rparr>,
         exit_events := [(10, Some 0, None)]\<rparr>) = None
   \<and> emissions (observeProcessExitMessage
     ((fresh_process 5)
        \<lparr>proc_stdout := \<lparr>data_events = [(1, lit ''a\<newline>b''), (20, lit ''c\<newline>''), (150, lit ''late\<newline>'')], end_event = None\<rparr>,
         proc_stderr := \<lparr>data_events = [(105, lit ''bye'')], end_event = None\<rparr>,
         exit_events := [(10, Some 0, None)]\<rparr>)) = [(10, Exit (Some 0) None)]
   \<and> delivered (getOutputStream
     ((fresh_process 5)
        \<lparr>proc_stdout := \<lparr>data_events = [(1, lit ''a\<newline>b''), (20, lit ''c\<newline>''), (150, lit ''late\<newline>'')], end_event = None\<rparr>,
         proc_stderr := \<lparr>data_events = [(105, lit ''bye'')], end_event = None\<rparr>,
         exit_events := [(10, Some 0, None)]\<rparr>)) =
     [(1, Stdout (lit ''a\<newline>'')), (20, Stdout (lit ''bc\<newline>'')), (110, Stderr (lit ''bye'')),
      (110, Exit (Some 0) None)]
   \<and> concat (map (stdout_data \<circ> snd) (delivered (getOutputStream
     ((fresh_process 5)
        \<lparr>proc_stdout := \<lparr>data_events = [(1, lit ''a\<newline>b''), (20, lit ''c\<newline>''), (150, lit ''late\<newline>'')], end_event = None\<rparr>,
         proc_stderr := \<lparr>data_events = [(105, lit ''bye'')], end_event = None\<rparr>,
         exit_events := [(10, Some 0, None)]\<rparr>)))) = lit ''a\<newline>bc\<newline>''"
  using getOutputStream_grace_period [of
     "(fresh_process 5)
        \<lparr>proc_stdout := \<lparr>data_events = [(1, lit ''a\<newline>b''), (20, lit ''c\<newline>''), (150, lit ''late\<newline>'')], end_event = None\<rparr>,
         proc_stderr := \<lparr>data_events = [(105, lit ''bye'')], end_event = None\<rparr>,
         exit_events := [(10, Some 0, None)]\<rparr>" 10 "Exit (Some 0) None"]
  by (simp add: stream_eval gated_lines_def close_time_def chunks_until_def terminal_def)

end
